theory Spec2Isabelle
  imports Complex_Main
begin

section \<open>JavaScript values\<close>

text \<open>
  The handlers of \<^verbatim>\<open>server.js\<close> read values that come out of a JSON parser: the request
  body (\<^verbatim>\<open>bodyParser.json()\<close>) and the body of the news provider's response
  (\<^verbatim>\<open>response.json()\<close>). A property that is not there reads as \<^verbatim>\<open>undefined\<close>.
  \<open>Obj\<close> lists an object's own properties, each key once, in insertion order.
  \<open>Num\<close> holds the value of the parsed number; JSON has no NaN.
\<close>

datatype jsval =
    Undefined
  | Null
  | Bool bool
  | Num rat
  | Str string
  | Arr "jsval list"
  | Obj "(string \<times> jsval) list"

datatype js_error = TypeError | CastError | ValidationError | StoreError

text \<open>
  What \<^verbatim>\<open>if (v)\<close> and \<^verbatim>\<open>!v\<close> test: \<^verbatim>\<open>undefined\<close>, \<^verbatim>\<open>null\<close>, \<^verbatim>\<open>false\<close>,
  zero and the empty string are falsy, every array and object is truthy.
\<close>

fun truthy :: "jsval \<Rightarrow> bool" where
  "truthy Undefined = False"
| "truthy Null = False"
| "truthy (Bool b) = b"
| "truthy (Num n) = (n \<noteq> 0)"
| "truthy (Str s) = (s \<noteq> [])"
| "truthy (Arr xs) = True"
| "truthy (Obj ps) = True"

text \<open>
  Reading \<^verbatim>\<open>v.k\<close>: a TypeError on \<^verbatim>\<open>undefined\<close> and \<^verbatim>\<open>null\<close>, the property's value on
  an object, \<^verbatim>\<open>undefined\<close> elsewhere. The names read in \<^verbatim>\<open>server.js\<close> (title, author,
  year, genre, articles, totalResults, description, source, name, url, publishedAt) are
  not built-in properties of strings, numbers, booleans or arrays.
\<close>

definition own_prop :: "(string \<times> jsval) list \<Rightarrow> string \<Rightarrow> jsval" where
  "own_prop ps k = (case map_of ps k of None \<Rightarrow> Undefined | Some v \<Rightarrow> v)"

fun get_prop :: "jsval \<Rightarrow> string \<Rightarrow> js_error + jsval" where
  "get_prop Undefined k = Inl TypeError"
| "get_prop Null k = Inl TypeError"
| "get_prop (Obj ps) k = Inr (own_prop ps k)"
| "get_prop (Bool b) k = Inr Undefined"
| "get_prop (Num n) k = Inr Undefined"
| "get_prop (Str s) k = Inr Undefined"
| "get_prop (Arr xs) k = Inr Undefined"

section \<open>Responses\<close>

text \<open>
  \<^verbatim>\<open>res.status(c).json(v)\<close> sends status \<open>c\<close> and the JSON encoding of \<open>v\<close>. In one place
  the value handed to \<^verbatim>\<open>res.json\<close> is itself the string \<^verbatim>\<open>JSON.stringify(v, null, 2)\<close>;
  \<open>JsonText v\<close> stands for that response: a JSON string literal whose content is the
  indented JSON text of \<open>v\<close>. The characters of the text are not modelled.
  A handler whose exception is caught by none of its own \<^verbatim>\<open>try\<close> blocks ends in \<open>Threw\<close>.
\<close>

datatype body = Json jsval | JsonText jsval

datatype outcome = Responded nat body | Threw js_error

definition message :: "string \<Rightarrow> body" where
  "message m = Json (Obj [(''message'', Str m)])"

definition all_fields_required :: body where
  "all_fields_required = message ''All fields are required''"

definition server_error :: body where
  "server_error = message ''Server error''"

definition book_not_found :: body where
  "book_not_found = message ''Book not found''"

definition book_deleted :: body where
  "book_deleted = message ''Book deleted successfully''"

definition news_error :: body where
  "news_error = Json (Obj [(''error'', Str ''Error fetching news. Try again later.'')])"

section \<open>Books\<close>

text \<open>
  The four values a handler takes out of the request body and hands to the Book model,
  as they are: the handlers convert nothing.
\<close>

record book =
  title :: jsval
  author :: jsval
  year :: jsval
  genre :: jsval

type_synonym book_doc = "string \<times> book"

text \<open>
  \<^verbatim>\<open>const { title, author, year, genre } = req.body\<close>: a TypeError when the body is
  \<^verbatim>\<open>undefined\<close> or \<^verbatim>\<open>null\<close>, otherwise four property reads.
\<close>

definition destructure :: "jsval \<Rightarrow> js_error + book" where
  "destructure b =
     (case get_prop b ''title'' of Inl e \<Rightarrow> Inl e | Inr t \<Rightarrow>
     (case get_prop b ''author'' of Inl e \<Rightarrow> Inl e | Inr a \<Rightarrow>
     (case get_prop b ''year'' of Inl e \<Rightarrow> Inl e | Inr y \<Rightarrow>
     (case get_prop b ''genre'' of Inl e \<Rightarrow> Inl e | Inr g \<Rightarrow>
        Inr \<lparr>title = t, author = a, year = y, genre = g\<rparr>))))"

text \<open>\<^verbatim>\<open>!title || !author || !year || !genre\<close>\<close>

definition some_field_falsy :: "book \<Rightarrow> bool" where
  "some_field_falsy b =
     (\<not> truthy (title b) \<or> \<not> truthy (author b) \<or> \<not> truthy (year b) \<or> \<not> truthy (genre b))"

text \<open>
  The Book model is mongoose's, not a function of this repository: the handlers take
  it as a parameter. Each call runs against a store state \<open>'s\<close>, resolves (\<open>Inr\<close>) or
  rejects (\<open>Inl\<close>), and leaves a store state behind. \<^verbatim>\<open>findByIdAndUpdate\<close> and
  \<^verbatim>\<open>findByIdAndDelete\<close> resolve to \<^verbatim>\<open>null\<close> (\<open>None\<close>) or to a document.
\<close>

record 's book_model =
  find :: "'s \<Rightarrow> (js_error + book_doc list) \<times> 's"
  save :: "book \<Rightarrow> 's \<Rightarrow> (js_error + book_doc) \<times> 's"
  findByIdAndUpdate :: "string \<Rightarrow> book \<Rightarrow> 's \<Rightarrow> (js_error + book_doc option) \<times> 's"
  findByIdAndDelete :: "string \<Rightarrow> 's \<Rightarrow> (js_error + book_doc option) \<times> 's"

text \<open>
  Modelled from the spec: the JSON form of a stored record, which mongoose's document
  serialisation produces: the four fields and the identifier the store assigned.
\<close>

definition book_json :: "book_doc \<Rightarrow> jsval" where
  "book_json d =
     Obj [(''_id'', Str (fst d)), (''title'', title (snd d)), (''author'', author (snd d)),
          (''year'', year (snd d)), (''genre'', genre (snd d))]"

text \<open>GET /books\<close>

definition get_books :: "'s book_model \<Rightarrow> 's \<Rightarrow> outcome \<times> 's" where
  "get_books M s =
     (case find M s of
        (Inr books, s') \<Rightarrow> (Responded 200 (Json (Arr (map book_json books))), s')
      | (Inl err, s') \<Rightarrow> (Responded 500 server_error, s'))"

text \<open>POST /books\<close>

definition post_books :: "'s book_model \<Rightarrow> jsval \<Rightarrow> 's \<Rightarrow> outcome \<times> 's" where
  "post_books M req_body s =
     (case destructure req_body of
        Inl e \<Rightarrow> (Threw e, s)
      | Inr b \<Rightarrow>
          if some_field_falsy b then (Responded 400 all_fields_required, s)
          else (case save M b s of
                  (Inr newBook, s') \<Rightarrow> (Responded 201 (Json (book_json newBook)), s')
                | (Inl err, s') \<Rightarrow> (Responded 500 server_error, s')))"

text \<open>PUT /books/:id\<close>

definition put_books :: "'s book_model \<Rightarrow> string \<Rightarrow> jsval \<Rightarrow> 's \<Rightarrow> outcome \<times> 's" where
  "put_books M i req_body s =
     (case destructure req_body of
        Inl e \<Rightarrow> (Threw e, s)
      | Inr b \<Rightarrow>
          if some_field_falsy b then (Responded 400 all_fields_required, s)
          else (case findByIdAndUpdate M i b s of
                  (Inr None, s') \<Rightarrow> (Responded 404 book_not_found, s')
                | (Inr (Some d), s') \<Rightarrow> (Responded 200 (Json (book_json d)), s')
                | (Inl err, s') \<Rightarrow> (Responded 500 server_error, s')))"

text \<open>DELETE /books/:id\<close>

definition delete_books :: "'s book_model \<Rightarrow> string \<Rightarrow> 's \<Rightarrow> outcome \<times> 's" where
  "delete_books M i s =
     (case findByIdAndDelete M i s of
        (Inr None, s') \<Rightarrow> (Responded 404 book_not_found, s')
      | (Inr (Some d), s') \<Rightarrow> (Responded 200 book_deleted, s')
      | (Inl err, s') \<Rightarrow> (Responded 500 server_error, s'))"

section \<open>The document store\<close>

text \<open>
  Modelled from the spec: the document store behind mongoose's Book model, which is
  no file of this repository; what follows is the spec's Book Repository contract.
  The store holds the records in store order, each under its identifier, and is
  reachable or not: any store-level failure (connection loss, timeout) is a StoreError.
\<close>

record store =
  docs :: "book_doc list"
  available :: bool

text \<open>
  Modelled from the spec: the repository's own validation, "fails with ValidationError
  if any field is absent/empty".
\<close>

fun absent_or_empty :: "jsval \<Rightarrow> bool" where
  "absent_or_empty Undefined = True"
| "absent_or_empty Null = True"
| "absent_or_empty (Str s) = (s = [])"
| "absent_or_empty (Bool b) = False"
| "absent_or_empty (Num n) = False"
| "absent_or_empty (Arr xs) = False"
| "absent_or_empty (Obj ps) = False"

definition invalid_book :: "book \<Rightarrow> bool" where
  "invalid_book b =
     (absent_or_empty (title b) \<or> absent_or_empty (author b) \<or>
      absent_or_empty (year b) \<or> absent_or_empty (genre b))"

text \<open>
  Modelled from the spec: the identifier assigned on creation is one no stored record
  has; which one is the store's business. Here: a string longer than every identifier
  in use.
\<close>

definition fresh_id :: "string list \<Rightarrow> string" where
  "fresh_id ids = replicate (Suc (foldr (\<lambda>i n. max (length i) n) ids 0)) (CHR ''0'')"

text \<open>
  Modelled from the spec: Update replaces the four fields of the record that has the
  identifier, Delete removes that record. Each touches one record, the first found.
\<close>

fun replace_doc :: "string \<Rightarrow> book \<Rightarrow> book_doc list \<Rightarrow> book_doc list" where
  "replace_doc i b [] = []"
| "replace_doc i b (d # ds) = (if fst d = i then (i, b) # ds else d # replace_doc i b ds)"

fun remove_doc :: "string \<Rightarrow> book_doc list \<Rightarrow> book_doc list" where
  "remove_doc i [] = []"
| "remove_doc i (d # ds) = (if fst d = i then ds else d # remove_doc i ds)"

text \<open>Modelled from the spec: List returns all records in store order.\<close>

definition store_find :: "store \<Rightarrow> (js_error + book_doc list) \<times> store" where
  "store_find s = (if available s then (Inr (docs s), s) else (Inl StoreError, s))"

text \<open>
  Modelled from the spec: Create fails with ValidationError if any field is absent or
  empty; otherwise it inserts a new record, assigns an identifier and returns the stored
  record with it.
\<close>

definition store_save :: "book \<Rightarrow> store \<Rightarrow> (js_error + book_doc) \<times> store" where
  "store_save b s =
     (if \<not> available s then (Inl StoreError, s)
      else if invalid_book b then (Inl ValidationError, s)
      else let d = (fresh_id (map fst (docs s)), b)
           in (Inr d, s\<lparr>docs := docs s @ [d]\<rparr>))"

text \<open>
  Modelled from the spec: Update fails with ValidationError likewise, finds nothing if
  no record has the identifier, and otherwise replaces all four fields of the matching
  record and returns the record as updated.
\<close>

definition store_update :: "string \<Rightarrow> book \<Rightarrow> store \<Rightarrow> (js_error + book_doc option) \<times> store" where
  "store_update i b s =
     (if \<not> available s then (Inl StoreError, s)
      else if invalid_book b then (Inl ValidationError, s)
      else (case map_of (docs s) i of
              None \<Rightarrow> (Inr None, s)
            | Some old \<Rightarrow> (Inr (Some (i, b)), s\<lparr>docs := replace_doc i b (docs s)\<rparr>)))"

text \<open>
  Modelled from the spec: Delete finds nothing if no record has the identifier, and
  otherwise removes the record and returns it.
\<close>

definition store_delete :: "string \<Rightarrow> store \<Rightarrow> (js_error + book_doc option) \<times> store" where
  "store_delete i s =
     (if \<not> available s then (Inl StoreError, s)
      else (case map_of (docs s) i of
              None \<Rightarrow> (Inr None, s)
            | Some old \<Rightarrow> (Inr (Some (i, old)), s\<lparr>docs := remove_doc i (docs s)\<rparr>)))"

definition Book :: "store book_model" where
  "Book = \<lparr>find = store_find, save = store_save,
           findByIdAndUpdate = store_update, findByIdAndDelete = store_delete\<rparr>"

text \<open>Modelled from the spec: an identifier is unique among the stored records.\<close>

definition wf_store :: "store \<Rightarrow> bool" where
  "wf_store s = distinct (map fst (docs s))"

section \<open>What mongoose does before it reaches the store\<close>

text \<open>
  Before it looks a record up by the id string of the path, the Book model reads the
  string as an identifier of the store, and rejects with a CastError where it cannot.
  Which strings are identifiers is mongoose's business and no part of this repository:
  the predicate \<open>valid\<close> is a parameter. With every string valid, the model is as it was.
\<close>

definition with_cast :: "(string \<Rightarrow> bool) \<Rightarrow> 's book_model \<Rightarrow> 's book_model" where
  "with_cast valid M =
     M\<lparr>findByIdAndUpdate :=
         (\<lambda>i b s. if valid i then findByIdAndUpdate M i b s else (Inl CastError, s)),
       findByIdAndDelete :=
         (\<lambda>i s. if valid i then findByIdAndDelete M i s else (Inl CastError, s))\<rparr>"

text \<open>One such format, used in the examples: 24 hexadecimal digits.\<close>

definition hex24 :: "string \<Rightarrow> bool" where
  "hex24 i = (length i = 24 \<and> set i \<subseteq> set ''0123456789abcdef'')"

text \<open>
  \<^verbatim>\<open>bookSchema\<close>, lines 17 to 22: title, author and genre are of type String, year is of
  type Number. Mongoose casts each value of a new or updated document to the type of its
  path before the document is validated and stored, and rejects with a CastError where
  it cannot. On a value out of a JSON parser: \<^verbatim>\<open>undefined\<close> and \<^verbatim>\<open>null\<close> stay; for a
  Number path a number stays, the empty text becomes \<^verbatim>\<open>null\<close>, any other text is read
  as a number, \<^verbatim>\<open>true\<close> and \<^verbatim>\<open>false\<close> become 1 and 0; for a String path a text stays,
  a number is written as text, \<^verbatim>\<open>true\<close> and \<^verbatim>\<open>false\<close> become their names; arrays and
  objects are rejected. How JavaScript reads a text as a number (\<open>None\<close> where the
  result is not a number) and writes a number as text are parameters.
\<close>

record js_casts =
  number_of_text :: "string \<Rightarrow> rat option"
  text_of_number :: "rat \<Rightarrow> string"

fun cast_Number :: "js_casts \<Rightarrow> jsval \<Rightarrow> js_error + jsval" where
  "cast_Number c Undefined = Inr Undefined"
| "cast_Number c Null = Inr Null"
| "cast_Number c (Num n) = Inr (Num n)"
| "cast_Number c (Str t) =
     (if t = [] then Inr Null
      else (case number_of_text c t of None \<Rightarrow> Inl CastError | Some n \<Rightarrow> Inr (Num n)))"
| "cast_Number c (Bool b) = Inr (Num (if b then 1 else 0))"
| "cast_Number c (Arr xs) = Inl CastError"
| "cast_Number c (Obj ps) = Inl CastError"

fun cast_String :: "js_casts \<Rightarrow> jsval \<Rightarrow> js_error + jsval" where
  "cast_String c Undefined = Inr Undefined"
| "cast_String c Null = Inr Null"
| "cast_String c (Str t) = Inr (Str t)"
| "cast_String c (Num n) = Inr (Str (text_of_number c n))"
| "cast_String c (Bool b) = Inr (Str (if b then ''true'' else ''false''))"
| "cast_String c (Arr xs) = Inl CastError"
| "cast_String c (Obj ps) = Inl CastError"

definition bookSchema :: "js_casts \<Rightarrow> book \<Rightarrow> js_error + book" where
  "bookSchema c b =
     (case cast_String c (title b) of Inl e \<Rightarrow> Inl e | Inr t \<Rightarrow>
     (case cast_String c (author b) of Inl e \<Rightarrow> Inl e | Inr a \<Rightarrow>
     (case cast_Number c (year b) of Inl e \<Rightarrow> Inl e | Inr y \<Rightarrow>
     (case cast_String c (genre b) of Inl e \<Rightarrow> Inl e | Inr g \<Rightarrow>
        Inr \<lparr>title = t, author = a, year = y, genre = g\<rparr>))))"

text \<open>A model that casts the four values by the schema before it saves or updates.\<close>

definition with_schema :: "js_casts \<Rightarrow> 's book_model \<Rightarrow> 's book_model" where
  "with_schema c M =
     M\<lparr>save :=
         (\<lambda>b s. case bookSchema c b of Inl e \<Rightarrow> (Inl e, s) | Inr b' \<Rightarrow> save M b' s),
       findByIdAndUpdate :=
         (\<lambda>i b s. case bookSchema c b of
                     Inl e \<Rightarrow> (Inl e, s)
                   | Inr b' \<Rightarrow> findByIdAndUpdate M i b' s)\<rparr>"

section \<open>News\<close>

text \<open>
  \<^verbatim>\<open>req.query\<close>: each of the three filters is a string or is not there. The credential
  is \<^verbatim>\<open>process.env.NEWS_API_KEY\<close>, a string or \<^verbatim>\<open>undefined\<close>.
\<close>

record news_query =
  query :: "string option"
  category :: "string option"
  country :: "string option"

definition param :: "string option \<Rightarrow> jsval" where
  "param p = (case p of None \<Rightarrow> Undefined | Some s \<Rightarrow> Str s)"

text \<open>What a template literal puts in place of \<^verbatim>\<open>${p}\<close>.\<close>

definition to_text :: "string option \<Rightarrow> string" where
  "to_text p = (case p of None \<Rightarrow> ''undefined'' | Some s \<Rightarrow> s)"

definition apiUrl :: "string option \<Rightarrow> news_query \<Rightarrow> string" where
  "apiUrl NEWS_API_KEY q =
     ''https://newsapi.org/v2/top-headlines?''
     @ (if truthy (param (query q)) then ''q='' @ to_text (query q) @ ''&'' else [])
     @ (if truthy (param (category q)) then ''category='' @ to_text (category q) @ ''&'' else [])
     @ (if truthy (param (country q)) then ''country='' @ to_text (country q) @ ''&'' else [])
     @ ''apiKey='' @ to_text NEWS_API_KEY"

text \<open>
  What \<^verbatim>\<open>await fetch(apiUrl)\<close> followed by \<^verbatim>\<open>await response.json()\<close> can give: the
  fetch rejects (no response at all), or there is a response with its \<^verbatim>\<open>ok\<close> flag
  (status 200 to 299) and a body that parses as JSON (\<open>Some\<close>) or does not (\<open>None\<close>).
\<close>

datatype fetch_result = Rejected | Response bool "jsval option"

text \<open>The callback of \<^verbatim>\<open>data.articles.map\<close>; the properties are read in source order.\<close>

definition reshape :: "jsval \<Rightarrow> js_error + jsval" where
  "reshape article =
     (case get_prop article ''title'' of Inl e \<Rightarrow> Inl e | Inr t \<Rightarrow>
     (case get_prop article ''description'' of Inl e \<Rightarrow> Inl e | Inr d \<Rightarrow>
     (case get_prop article ''source'' of Inl e \<Rightarrow> Inl e | Inr src \<Rightarrow>
     (case get_prop src ''name'' of Inl e \<Rightarrow> Inl e | Inr n \<Rightarrow>
     (case get_prop article ''url'' of Inl e \<Rightarrow> Inl e | Inr u \<Rightarrow>
     (case get_prop article ''publishedAt'' of Inl e \<Rightarrow> Inl e | Inr p \<Rightarrow>
        Inr (Obj [(''title'', t), (''description'', d), (''source'', n),
                  (''url'', u), (''publishedAt'', p)])))))))"

fun map_err :: "('a \<Rightarrow> js_error + 'b) \<Rightarrow> 'a list \<Rightarrow> js_error + 'b list" where
  "map_err f [] = Inr []"
| "map_err f (x # xs) =
     (case f x of
        Inl e \<Rightarrow> Inl e
      | Inr y \<Rightarrow> (case map_err f xs of Inl e \<Rightarrow> Inl e | Inr ys \<Rightarrow> Inr (y # ys)))"

text \<open>
  \<^verbatim>\<open>v.map(f)\<close> for a value out of a JSON parser: only an array has a \<^verbatim>\<open>map\<close> that can
  be called; anything else is a TypeError.
\<close>

definition js_map :: "(jsval \<Rightarrow> js_error + jsval) \<Rightarrow> jsval \<Rightarrow> js_error + jsval list" where
  "js_map f v = (case v of Arr xs \<Rightarrow> map_err f xs | _ \<Rightarrow> Inl TypeError)"

text \<open>The body of the \<^verbatim>\<open>if (response.ok)\<close> branch, up to the value that is stringified.\<close>

definition news_payload :: "jsval \<Rightarrow> js_error + jsval" where
  "news_payload data =
     (case get_prop data ''articles'' of Inl e \<Rightarrow> Inl e | Inr arts \<Rightarrow>
     (case js_map reshape arts of Inl e \<Rightarrow> Inl e | Inr articles \<Rightarrow>
     (case get_prop data ''totalResults'' of Inl e \<Rightarrow> Inl e | Inr n \<Rightarrow>
        Inr (Obj [(''totalResults'', n), (''articles'', Arr articles)]))))"

text \<open>
  GET /news. The upstream provider is the function \<open>fetch\<close> from the URL requested to
  what comes back. Everything happens inside one \<^verbatim>\<open>try\<close> whose \<^verbatim>\<open>catch\<close> answers 500.
\<close>

definition get_news :: "(string \<Rightarrow> fetch_result) \<Rightarrow> string option \<Rightarrow> news_query \<Rightarrow> outcome" where
  "get_news fetch NEWS_API_KEY q =
     (case fetch (apiUrl NEWS_API_KEY q) of
        Rejected \<Rightarrow> Responded 500 news_error
      | Response ok None \<Rightarrow> Responded 500 news_error
      | Response ok (Some data) \<Rightarrow>
          if ok then
            (case news_payload data of
               Inr v \<Rightarrow> Responded 200 (JsonText v)
             | Inl e \<Rightarrow> Responded 500 news_error)
          else Responded 500 news_error)"

subsection \<open>Reading an upstream URL\<close>

text \<open>
  How the provider reads the request it receives: the query string runs from the first
  \<open>?\<close> to the first \<open>#\<close> after it, \<open>&\<close> separates the parameters, and the first \<open>=\<close>
  of a parameter separates its name from its value. These definitions belong to the
  statement of the claim about forwarded filters, not to \<^verbatim>\<open>server.js\<close>.
\<close>

fun split_on :: "char \<Rightarrow> string \<Rightarrow> string list" where
  "split_on c [] = [[]]"
| "split_on c (x # xs) =
     (if x = c then [] # split_on c xs
      else (case split_on c xs of [] \<Rightarrow> [[x]] | w # ws \<Rightarrow> (x # w) # ws))"

definition query_string :: "string \<Rightarrow> string" where
  "query_string u = takeWhile (\<lambda>c. c \<noteq> CHR ''#'') (drop 1 (dropWhile (\<lambda>c. c \<noteq> CHR ''?'') u))"

definition split_pair :: "string \<Rightarrow> string \<times> string" where
  "split_pair p =
     (takeWhile (\<lambda>c. c \<noteq> CHR ''='') p, drop 1 (dropWhile (\<lambda>c. c \<noteq> CHR ''='') p))"

definition parse_params :: "string \<Rightarrow> (string \<times> string) list" where
  "parse_params qs = map split_pair (filter (\<lambda>p. p \<noteq> []) (split_on (CHR ''&'') qs))"

definition url_params :: "string \<Rightarrow> (string \<times> string) list" where
  "url_params u = parse_params (query_string u)"

text \<open>A filter the caller supplied with a non-empty value, as a parameter.\<close>

definition supplied :: "string \<Rightarrow> string option \<Rightarrow> (string \<times> string) list" where
  "supplied name p = (case p of None \<Rightarrow> [] | Some v \<Rightarrow> if v = [] then [] else [(name, v)])"

definition plain :: "string \<Rightarrow> bool" where
  "plain v = (CHR ''&'' \<notin> set v \<and> CHR ''#'' \<notin> set v)"

definition plain_param :: "string option \<Rightarrow> bool" where
  "plain_param p = (case p of None \<Rightarrow> True | Some v \<Rightarrow> plain v)"

section \<open>The presence check\<close>

lemma destructure_Obj:
  "destructure (Obj ps) =
     Inr \<lparr>title = own_prop ps ''title'', author = own_prop ps ''author'',
          year = own_prop ps ''year'', genre = own_prop ps ''genre''\<rparr>"
  by (simp add: destructure_def)

lemma absent_or_empty_falsy: "absent_or_empty v \<Longrightarrow> \<not> truthy v"
  by (cases v) simp_all

lemma truthy_not_absent: "truthy v \<Longrightarrow> \<not> absent_or_empty v"
  by (cases v) simp_all

lemma invalid_book_falsy: "invalid_book b \<Longrightarrow> some_field_falsy b"
  unfolding invalid_book_def some_field_falsy_def
  using absent_or_empty_falsy by blast

lemma valid_if_truthy: "\<not> some_field_falsy b \<Longrightarrow> \<not> invalid_book b"
  using invalid_book_falsy by blast

lemma post_books_falsy:
  "destructure req_body = Inr b \<Longrightarrow> some_field_falsy b \<Longrightarrow>
   post_books M req_body s = (Responded 400 all_fields_required, s)"
  by (simp add: post_books_def)

lemma put_books_falsy:
  "destructure req_body = Inr b \<Longrightarrow> some_field_falsy b \<Longrightarrow>
   put_books M i req_body s = (Responded 400 all_fields_required, s)"
  by (simp add: put_books_def)

text \<open>
  Claim C7, as amended. A POST /books or PUT /books/:id request whose body was parsed,
  so that its fields can be read, and lacks one of the four required fields, or holds it
  empty, is answered 400 before the Book model is called: whatever the model \<open>M\<close> would
  do (fail, or change the store on every call), the answer is the same and the store
  state is the one the request found.
\<close>

theorem validation_failure_atomic:
  assumes "destructure req_body = Inr b" and "invalid_book b"
  shows "post_books M req_body s = (Responded 400 all_fields_required, s) \<and>
         put_books M i req_body s = (Responded 400 all_fields_required, s)"
  using assms by (simp add: post_books_falsy put_books_falsy invalid_book_falsy)

text \<open>
  The claim at a body with an empty author and no genre, against a store that is down:
  a call to the store would have been answered 500.
\<close>

theorem validation_failure_atomic_witness:
  "destructure (Obj [(''title'', Str ''Dune''), (''author'', Str ''''), (''year'', Num 1965)])
     = Inr \<lparr>title = Str ''Dune'', author = Str '''', year = Num 1965, genre = Undefined\<rparr> \<and>
   invalid_book \<lparr>title = Str ''Dune'', author = Str '''', year = Num 1965, genre = Undefined\<rparr> \<and>
   post_books Book (Obj [(''title'', Str ''Dune''), (''author'', Str ''''), (''year'', Num 1965)])
     \<lparr>docs = [], available = False\<rparr>
     = (Responded 400 all_fields_required, \<lparr>docs = [], available = False\<rparr>) \<and>
   put_books Book ''0'' (Obj [(''title'', Str ''Dune''), (''author'', Str ''''), (''year'', Num 1965)])
     \<lparr>docs = [], available = False\<rparr>
     = (Responded 400 all_fields_required, \<lparr>docs = [], available = False\<rparr>)"
proof -
  have d: "destructure (Obj [(''title'', Str ''Dune''), (''author'', Str ''''), (''year'', Num 1965)])
     = Inr \<lparr>title = Str ''Dune'', author = Str '''', year = Num 1965, genre = Undefined\<rparr>"
    by (simp add: destructure_def own_prop_def)
  have i: "invalid_book \<lparr>title = Str ''Dune'', author = Str '''', year = Num 1965, genre = Undefined\<rparr>"
    by (simp add: invalid_book_def)
  from d i validation_failure_atomic [OF d i, of Book "\<lparr>docs = [], available = False\<rparr>" "''0''"]
  show ?thesis by simp
qed

text \<open>
  Claim C7 as stated fails for a request without a parsed body: all four fields are
  missing, yet no 400 is produced. The fields are read on lines 69 and 94, before the
  \<^verbatim>\<open>try\<close>, and the TypeError leaves the handler.
\<close>

theorem validation_failure_counterexample:
  "post_books Book Undefined \<lparr>docs = [], available = True\<rparr>
     = (Threw TypeError, \<lparr>docs = [], available = True\<rparr>) \<and>
   put_books Book ''0'' Undefined \<lparr>docs = [], available = True\<rparr>
     = (Threw TypeError, \<lparr>docs = [], available = True\<rparr>)"
  by (simp add: post_books_def put_books_def destructure_def)

lemma bookSchema_text_zero:
  assumes "number_of_text c ''0'' = Some 0"
  shows "bookSchema c \<lparr>title = Str x, author = Str y, year = Str ''0'', genre = Str z\<rparr>
           = Inr \<lparr>title = Str x, author = Str y, year = Num 0, genre = Str z\<rparr>"
  using assms by (simp add: bookSchema_def)

text \<open>
  Claim C9, as amended. The check is JavaScript falsiness, so a body whose year is the
  number 0 is answered 400 by POST /books and by PUT /books/:id, whatever its other
  fields and whatever the store. The check does not keep a book with year 0 out of the
  store: a year given as the text 0 is truthy, and the schema's Number type casts it to
  the number 0, which POST then creates and PUT sets.
\<close>

theorem year_zero_rejected:
  "(destructure req_body = Inr b \<and> year b = Num 0 \<longrightarrow>
      post_books M req_body s = (Responded 400 all_fields_required, s) \<and>
      put_books M i req_body s = (Responded 400 all_fields_required, s)) \<and>
   (destructure req_body =
      Inr \<lparr>title = Str x, author = Str y, year = Str ''0'', genre = Str z\<rparr> \<and>
    x \<noteq> [] \<and> y \<noteq> [] \<and> z \<noteq> [] \<and> number_of_text c ''0'' = Some 0 \<and> available t \<longrightarrow>
      post_books (with_schema c Book) req_body t =
        (Responded 201
           (Json (book_json (fresh_id (map fst (docs t)),
                    \<lparr>title = Str x, author = Str y, year = Num 0, genre = Str z\<rparr>))),
         t\<lparr>docs := docs t @
               [(fresh_id (map fst (docs t)),
                 \<lparr>title = Str x, author = Str y, year = Num 0, genre = Str z\<rparr>)]\<rparr>) \<and>
      (i \<in> fst ` set (docs t) \<longrightarrow>
         put_books (with_schema c Book) i req_body t =
           (Responded 200
              (Json (book_json (i, \<lparr>title = Str x, author = Str y, year = Num 0,
                                    genre = Str z\<rparr>))),
            t\<lparr>docs := replace_doc i
                  \<lparr>title = Str x, author = Str y, year = Num 0, genre = Str z\<rparr> (docs t)\<rparr>)))"
proof (intro conjI impI)
  assume a: "destructure req_body = Inr b \<and> year b = Num 0"
  then have f: "some_field_falsy b"
    by (simp add: some_field_falsy_def)
  from a f show "post_books M req_body s = (Responded 400 all_fields_required, s)"
    by (simp add: post_books_falsy)
  from a f show "put_books M i req_body s = (Responded 400 all_fields_required, s)"
    by (simp add: put_books_falsy)
next
  let ?given = "\<lparr>title = Str x, author = Str y, year = Str ''0'', genre = Str z\<rparr>"
  let ?stored = "\<lparr>title = Str x, author = Str y, year = Num 0, genre = Str z\<rparr>"
  assume a: "destructure req_body = Inr ?given \<and>
    x \<noteq> [] \<and> y \<noteq> [] \<and> z \<noteq> [] \<and> number_of_text c ''0'' = Some 0 \<and> available t"
  then have c: "bookSchema c ?given = Inr ?stored"
    by (simp add: bookSchema_text_zero)
  from a have t: "\<not> some_field_falsy ?given"
    by (simp add: some_field_falsy_def)
  from a have v: "\<not> invalid_book ?stored"
    by (simp add: invalid_book_def)
  from a c t v show "post_books (with_schema c Book) req_body t =
        (Responded 201 (Json (book_json (fresh_id (map fst (docs t)), ?stored))),
         t\<lparr>docs := docs t @ [(fresh_id (map fst (docs t)), ?stored)]\<rparr>)"
    by (simp add: post_books_def with_schema_def Book_def store_save_def Let_def)
  assume "i \<in> fst ` set (docs t)"
  then obtain old where "map_of (docs t) i = Some old"
    by (metis map_of_eq_None_iff not_Some_eq)
  with a c t v show "put_books (with_schema c Book) i req_body t =
           (Responded 200 (Json (book_json (i, ?stored))),
            t\<lparr>docs := replace_doc i ?stored (docs t)\<rparr>)"
    by (simp add: put_books_def with_schema_def Book_def store_update_def)
qed

text \<open>
  The spec's example body with the year set to the number 0, and with the year set to
  the text 0; JavaScript reads the text 0 as the number 0. No number is written as text
  in these examples, so that conversion is given no content.
\<close>

theorem year_zero_rejected_witness:
  "post_books Book (Obj [(''title'', Str ''Dune''), (''author'', Str ''Herbert''), (''year'', Num 0),
                         (''genre'', Str ''SciFi'')])
     \<lparr>docs = [], available = True\<rparr>
     = (Responded 400 all_fields_required, \<lparr>docs = [], available = True\<rparr>) \<and>
   put_books Book ''0'' (Obj [(''title'', Str ''Dune''), (''author'', Str ''Herbert''), (''year'', Num 0),
                             (''genre'', Str ''SciFi'')])
     \<lparr>docs = [(''0'', \<lparr>title = Str ''Dune'', author = Str ''Herbert'', year = Num 1965,
                         genre = Str ''SciFi''\<rparr>)], available = True\<rparr>
     = (Responded 400 all_fields_required,
        \<lparr>docs = [(''0'', \<lparr>title = Str ''Dune'', author = Str ''Herbert'', year = Num 1965,
                         genre = Str ''SciFi''\<rparr>)], available = True\<rparr>) \<and>
   put_books
     (with_schema \<lparr>number_of_text = (\<lambda>t. if t = ''0'' then Some 0 else None),
                   text_of_number = (\<lambda>n. [])\<rparr> Book)
     ''0''
     (Obj [(''title'', Str ''Dune''), (''author'', Str ''Herbert''), (''year'', Str ''0''),
           (''genre'', Str ''SciFi'')])
     \<lparr>docs = [(''0'', \<lparr>title = Str ''Dune'', author = Str ''Herbert'', year = Num 1965,
                         genre = Str ''SciFi''\<rparr>)], available = True\<rparr>
     = (Responded 200
          (Json (Obj [(''_id'', Str ''0''), (''title'', Str ''Dune''), (''author'', Str ''Herbert''),
                      (''year'', Num 0), (''genre'', Str ''SciFi'')])),
        \<lparr>docs = [(''0'', \<lparr>title = Str ''Dune'', author = Str ''Herbert'', year = Num 0,
                         genre = Str ''SciFi''\<rparr>)], available = True\<rparr>)"
proof -
  let ?c = "\<lparr>number_of_text = (\<lambda>t. if t = ''0'' then Some 0 else None),
             text_of_number = (\<lambda>n. [])\<rparr>"
  let ?zero = "Obj [(''title'', Str ''Dune''), (''author'', Str ''Herbert''), (''year'', Num 0),
                    (''genre'', Str ''SciFi'')]"
  let ?text = "Obj [(''title'', Str ''Dune''), (''author'', Str ''Herbert''), (''year'', Str ''0''),
                    (''genre'', Str ''SciFi'')]"
  let ?s0 = "\<lparr>docs = [], available = True\<rparr>"
  let ?s1 = "\<lparr>docs = [(''0'', \<lparr>title = Str ''Dune'', author = Str ''Herbert'', year = Num 1965,
                         genre = Str ''SciFi''\<rparr>)], available = True\<rparr>"
  have d: "destructure ?zero
     = Inr \<lparr>title = Str ''Dune'', author = Str ''Herbert'', year = Num 0, genre = Str ''SciFi''\<rparr> \<and>
     year \<lparr>title = Str ''Dune'', author = Str ''Herbert'', year = Num 0, genre = Str ''SciFi''\<rparr>
       = Num 0"
    by (simp add: destructure_def own_prop_def)
  have e: "destructure ?text
     = Inr \<lparr>title = Str ''Dune'', author = Str ''Herbert'', year = Str ''0'',
            genre = Str ''SciFi''\<rparr> \<and>
     ''Dune'' \<noteq> [] \<and> ''Herbert'' \<noteq> [] \<and> ''SciFi'' \<noteq> [] \<and>
     number_of_text ?c ''0'' = Some 0 \<and> available ?s1"
    by (simp add: destructure_def own_prop_def)
  have m: "''0'' \<in> fst ` set (docs ?s1)"
    by simp
  from d year_zero_rejected [of ?zero _ Book ?s0 "''0''"]
  have 1: "post_books Book ?zero ?s0 = (Responded 400 all_fields_required, ?s0)"
    by blast
  from d year_zero_rejected [of ?zero _ Book ?s1 "''0''"]
  have 2: "put_books Book ''0'' ?zero ?s1 = (Responded 400 all_fields_required, ?s1)"
    by blast
  from e m year_zero_rejected [of ?text _ Book ?s1 "''0''" "''Dune''" "''Herbert''" "''SciFi''" ?c ?s1]
  have 3: "put_books (with_schema ?c Book) ''0'' ?text ?s1 =
           (Responded 200
              (Json (book_json (''0'', \<lparr>title = Str ''Dune'', author = Str ''Herbert'',
                                       year = Num 0, genre = Str ''SciFi''\<rparr>))),
            ?s1\<lparr>docs := replace_doc ''0''
                  \<lparr>title = Str ''Dune'', author = Str ''Herbert'', year = Num 0,
                     genre = Str ''SciFi''\<rparr> (docs ?s1)\<rparr>)"
    by blast
  from 1 2 3 show ?thesis
    by (simp add: book_json_def)
qed

text \<open>
  Claim C9 as stated fails in its last clause: a POST whose year is the text 0 passes
  the check and creates a book whose year is the number 0.
\<close>

theorem year_zero_counterexample:
  "post_books
     (with_schema \<lparr>number_of_text = (\<lambda>t. if t = ''0'' then Some 0 else None),
                   text_of_number = (\<lambda>n. [])\<rparr> Book)
     (Obj [(''title'', Str ''Dune''), (''author'', Str ''Herbert''), (''year'', Str ''0''),
           (''genre'', Str ''SciFi'')])
     \<lparr>docs = [], available = True\<rparr>
     = (Responded 201
          (Json (Obj [(''_id'', Str ''0''), (''title'', Str ''Dune''), (''author'', Str ''Herbert''),
                      (''year'', Num 0), (''genre'', Str ''SciFi'')])),
        \<lparr>docs = [(''0'', \<lparr>title = Str ''Dune'', author = Str ''Herbert'', year = Num 0,
                         genre = Str ''SciFi''\<rparr>)], available = True\<rparr>)"
  by (simp add: post_books_def destructure_def own_prop_def some_field_falsy_def
        with_schema_def bookSchema_def Book_def store_save_def invalid_book_def fresh_id_def
        Let_def book_json_def)

section \<open>The store\<close>

lemma length_le_longest: "i \<in> set ids \<Longrightarrow> length i \<le> foldr (\<lambda>i n. max (length i) n) ids 0"
  by (induction ids) auto

lemma fresh_id_new: "fresh_id ids \<notin> set ids"
proof
  assume "fresh_id ids \<in> set ids"
  then have "length (fresh_id ids) \<le> foldr (\<lambda>i n. max (length i) n) ids 0"
    by (rule length_le_longest)
  then show False by (simp add: fresh_id_def)
qed

lemma map_fst_replace_doc: "map fst (replace_doc i b ds) = map fst ds"
  by (induction ds) auto

lemma set_remove_doc: "set (remove_doc i ds) \<subseteq> set ds"
  by (induction ds) auto

lemma distinct_remove_doc: "distinct (map fst ds) \<Longrightarrow> distinct (map fst (remove_doc i ds))"
  using set_remove_doc by (induction ds) force+

lemma remove_doc_gone: "distinct (map fst ds) \<Longrightarrow> i \<notin> fst ` set (remove_doc i ds)"
proof (induction ds)
  case Nil
  then show ?case by simp
next
  case (Cons d ds)
  show ?case
  proof (cases "fst d = i")
    case True
    with Cons.prems show ?thesis by auto
  next
    case False
    with Cons show ?thesis by auto
  qed
qed

lemma replace_doc_in: "map_of ds i = Some old \<Longrightarrow> (i, b) \<in> set (replace_doc i b ds)"
  by (induction ds) (auto split: if_splits)

lemma replace_doc_only:
  "distinct (map fst ds) \<Longrightarrow> (i, c) \<in> set (replace_doc i b ds) \<Longrightarrow> c = b"
proof (induction ds)
  case Nil
  then show ?case by simp
next
  case (Cons e ds)
  show ?case
  proof (cases "fst e = i")
    case True
    with Cons.prems have "c = b \<or> (i, c) \<in> set ds" by simp
    moreover from True Cons.prems have "i \<notin> fst ` set ds" by auto
    ultimately show ?thesis by force
  next
    case False
    with Cons show ?thesis by auto
  qed
qed

text \<open>
  Every handler keeps the identifiers of the store unique.
\<close>

lemma store_wf_post: "wf_store s \<Longrightarrow> wf_store (snd (post_books Book req_body s))"
  using fresh_id_new [of "map fst (docs s)"]
  by (auto simp: post_books_def Book_def store_save_def wf_store_def Let_def split: sum.splits)

lemma store_wf_put: "wf_store s \<Longrightarrow> wf_store (snd (put_books Book i req_body s))"
  by (auto simp: put_books_def Book_def store_update_def wf_store_def map_fst_replace_doc
           split: sum.splits option.splits)

lemma store_wf_delete: "wf_store s \<Longrightarrow> wf_store (snd (delete_books Book i s))"
  by (auto simp: delete_books_def Book_def store_delete_def wf_store_def distinct_remove_doc
           split: sum.splits option.splits)

lemma get_books_Book:
  "available s \<Longrightarrow> get_books Book s = (Responded 200 (Json (Arr (map book_json (docs s)))), s)"
  by (simp add: get_books_def Book_def store_find_def)

lemma post_books_Book_201:
  assumes "post_books Book req_body s = (Responded 201 r, s')"
  shows "\<exists>i b. destructure req_body = Inr b \<and> r = Json (book_json (i, b)) \<and>
           available s' \<and> docs s' = docs s @ [(i, b)]"
  using assms
  by (auto simp: post_books_def Book_def store_save_def Let_def
           split: sum.splits if_splits)

lemma put_books_Book_200:
  assumes "put_books Book i req_body s = (Responded 200 r, s')"
  shows "\<exists>b old. destructure req_body = Inr b \<and> r = Json (book_json (i, b)) \<and>
           available s' \<and> map_of (docs s) i = Some old \<and> docs s' = replace_doc i b (docs s)"
  using assms
  by (auto simp: put_books_def Book_def store_update_def
           split: sum.splits if_splits option.splits)

lemma delete_books_Book_200:
  assumes "delete_books Book i s = (Responded 200 r, s')"
  shows "available s' \<and> docs s' = remove_doc i (docs s)"
  using assms
  by (auto simp: delete_books_def Book_def store_delete_def
           split: sum.splits if_splits option.splits)

text \<open>
  Claim C1, as amended. A POST /books body with a falsy field (absent, null, false,
  empty text, or the number 0) is answered 400 and nothing is persisted, whatever the
  Book model. A body whose four fields are all truthy is handed to the model, and the
  answer is 201 with the created record whenever the model's save resolves. Against the
  store of the spec that is whenever the store is reachable: the record gets an
  identifier no stored record has and is appended.
\<close>

theorem create_book:
  "(destructure req_body = Inr b \<and> some_field_falsy b \<longrightarrow>
      post_books M req_body s = (Responded 400 all_fields_required, s)) \<and>
   (destructure req_body = Inr b \<and> \<not> some_field_falsy b \<and> save M b s = (Inr d, s') \<longrightarrow>
      post_books M req_body s = (Responded 201 (Json (book_json d)), s')) \<and>
   (destructure req_body = Inr b \<and> \<not> some_field_falsy b \<and> available t \<longrightarrow>
      fresh_id (map fst (docs t)) \<notin> fst ` set (docs t) \<and>
      post_books Book req_body t =
        (Responded 201 (Json (book_json (fresh_id (map fst (docs t)), b))),
         t\<lparr>docs := docs t @ [(fresh_id (map fst (docs t)), b)]\<rparr>))"
proof (intro conjI impI)
  assume "destructure req_body = Inr b \<and> some_field_falsy b"
  then show "post_books M req_body s = (Responded 400 all_fields_required, s)"
    by (simp add: post_books_falsy)
next
  assume "destructure req_body = Inr b \<and> \<not> some_field_falsy b \<and> save M b s = (Inr d, s')"
  then show "post_books M req_body s = (Responded 201 (Json (book_json d)), s')"
    by (simp add: post_books_def)
next
  assume "destructure req_body = Inr b \<and> \<not> some_field_falsy b \<and> available t"
  then show "post_books Book req_body t =
        (Responded 201 (Json (book_json (fresh_id (map fst (docs t)), b))),
         t\<lparr>docs := docs t @ [(fresh_id (map fst (docs t)), b)]\<rparr>)"
    by (simp add: post_books_def Book_def store_save_def Let_def valid_if_truthy)
next
  show "fresh_id (map fst (docs t)) \<notin> fst ` set (docs t)"
    using fresh_id_new [of "map fst (docs t)"] by simp
qed

text \<open>
  The spec's example body is created in an empty store; a body with an empty author and
  no genre is refused by a store that is down.
\<close>

theorem create_book_witness:
  "post_books Book
     (Obj [(''title'', Str ''Dune''), (''author'', Str ''Herbert''), (''year'', Num 1965),
           (''genre'', Str ''SciFi'')])
     \<lparr>docs = [], available = True\<rparr>
   = (Responded 201
        (Json (Obj [(''_id'', Str ''0''), (''title'', Str ''Dune''), (''author'', Str ''Herbert''),
                    (''year'', Num 1965), (''genre'', Str ''SciFi'')])),
      \<lparr>docs = [(''0'', \<lparr>title = Str ''Dune'', author = Str ''Herbert'', year = Num 1965,
                          genre = Str ''SciFi''\<rparr>)],
         available = True\<rparr>) \<and>
   post_books Book (Obj [(''title'', Str ''Dune''), (''author'', Str ''''), (''year'', Num 1965)])
     \<lparr>docs = [], available = False\<rparr>
   = (Responded 400 (Json (Obj [(''message'', Str ''All fields are required'')])),
      \<lparr>docs = [], available = False\<rparr>)"
proof -
  let ?dune = "\<lparr>title = Str ''Dune'', author = Str ''Herbert'', year = Num 1965,
                 genre = Str ''SciFi''\<rparr>"
  let ?b1 = "Obj [(''title'', Str ''Dune''), (''author'', Str ''Herbert''), (''year'', Num 1965),
                  (''genre'', Str ''SciFi'')]"
  let ?bad = "\<lparr>title = Str ''Dune'', author = Str '''', year = Num 1965, genre = Undefined\<rparr>"
  let ?b2 = "Obj [(''title'', Str ''Dune''), (''author'', Str ''''), (''year'', Num 1965)]"
  let ?up = "\<lparr>docs = [], available = True\<rparr>"
  let ?down = "\<lparr>docs = [], available = False\<rparr>"
  have 1: "destructure ?b1 = Inr ?dune \<and> \<not> some_field_falsy ?dune \<and> available ?up"
    by (simp add: destructure_def own_prop_def some_field_falsy_def)
  have 2: "destructure ?b2 = Inr ?bad \<and> some_field_falsy ?bad"
    by (simp add: destructure_def own_prop_def some_field_falsy_def)
  from 1 create_book [of ?b1 ?dune Book ?up "(''0'', ?dune)" ?up ?up]
  have a: "post_books Book ?b1 ?up =
        (Responded 201 (Json (book_json (fresh_id (map fst (docs ?up)), ?dune))),
         ?up\<lparr>docs := docs ?up @ [(fresh_id (map fst (docs ?up)), ?dune)]\<rparr>)"
    by blast
  from 2 create_book [of ?b2 ?bad Book ?down "(''0'', ?dune)" ?up ?up]
  have b: "post_books Book ?b2 ?down = (Responded 400 all_fields_required, ?down)"
    by blast
  from a b show ?thesis
    by (simp add: fresh_id_def book_json_def all_fields_required_def message_def)
qed

text \<open>
  Claim C1 as stated fails: all four fields are present and none is empty, yet the
  answer is 400, because the year is 0.
\<close>

theorem create_book_counterexample:
  "post_books Book
     (Obj [(''title'', Str ''Dune''), (''author'', Str ''Herbert''), (''year'', Num 0),
           (''genre'', Str ''SciFi'')])
     \<lparr>docs = [], available = True\<rparr>
   = (Responded 400 (Json (Obj [(''message'', Str ''All fields are required'')])),
      \<lparr>docs = [], available = True\<rparr>)"
  by (simp add: post_books_def destructure_def own_prop_def some_field_falsy_def
        all_fields_required_def message_def)

text \<open>
  Claim C3, as amended. Against the store of the spec, while it is reachable, and for an
  id string that no stored record has: DELETE /books/:id is answered 404 when the string
  is one the model reads as an identifier, and 500 when it is not and the lookup is
  rejected; PUT /books/:id with a body that passes the presence check is answered
  likewise. A PUT whose body fails the check is answered 400, whatever the id and the
  model. The store is unmodified in each case.
\<close>

theorem unknown_id_not_found:
  assumes "available t" and "i \<notin> fst ` set (docs t)"
  shows "delete_books (with_cast valid Book) i t =
           (if valid i then (Responded 404 book_not_found, t)
            else (Responded 500 server_error, t)) \<and>
         (destructure req_body = Inr b \<and> \<not> some_field_falsy b \<longrightarrow>
            put_books (with_cast valid Book) i req_body t =
              (if valid i then (Responded 404 book_not_found, t)
               else (Responded 500 server_error, t))) \<and>
         (destructure req_body = Inr b \<and> some_field_falsy b \<longrightarrow>
            put_books M i req_body s = (Responded 400 all_fields_required, s))"
proof (intro conjI impI)
  from assms(2) have n: "map_of (docs t) i = None"
    by (simp add: map_of_eq_None_iff)
  with assms(1) show "delete_books (with_cast valid Book) i t =
           (if valid i then (Responded 404 book_not_found, t)
            else (Responded 500 server_error, t))"
    by (simp add: delete_books_def with_cast_def Book_def store_delete_def)
  assume "destructure req_body = Inr b \<and> \<not> some_field_falsy b"
  with assms(1) n show "put_books (with_cast valid Book) i req_body t =
              (if valid i then (Responded 404 book_not_found, t)
               else (Responded 500 server_error, t))"
    by (simp add: put_books_def with_cast_def Book_def store_update_def valid_if_truthy)
next
  assume "destructure req_body = Inr b \<and> some_field_falsy b"
  then show "put_books M i req_body s = (Responded 400 all_fields_required, s)"
    by (simp add: put_books_falsy)
qed

text \<open>
  A store with one book. An identifier of the format that no record has is answered
  404; the string \<open>nope\<close>, which is no identifier, is answered 500; a PUT with only a
  title is answered 400.
\<close>

theorem unknown_id_not_found_witness:
  "delete_books (with_cast hex24 Book) ''65a1b2c3d4e5f60718293a4c''
     \<lparr>docs = [(''65a1b2c3d4e5f60718293a4b'',
                \<lparr>title = Str ''Dune'', author = Str ''Herbert'', year = Num 1965,
                   genre = Str ''SciFi''\<rparr>)], available = True\<rparr>
     = (Responded 404 book_not_found,
        \<lparr>docs = [(''65a1b2c3d4e5f60718293a4b'',
                   \<lparr>title = Str ''Dune'', author = Str ''Herbert'', year = Num 1965,
                      genre = Str ''SciFi''\<rparr>)], available = True\<rparr>) \<and>
   put_books (with_cast hex24 Book) ''65a1b2c3d4e5f60718293a4c''
     (Obj [(''title'', Str ''Emma''), (''author'', Str ''Austen''), (''year'', Num 1815),
           (''genre'', Str ''Novel'')])
     \<lparr>docs = [(''65a1b2c3d4e5f60718293a4b'',
                \<lparr>title = Str ''Dune'', author = Str ''Herbert'', year = Num 1965,
                   genre = Str ''SciFi''\<rparr>)], available = True\<rparr>
     = (Responded 404 book_not_found,
        \<lparr>docs = [(''65a1b2c3d4e5f60718293a4b'',
                   \<lparr>title = Str ''Dune'', author = Str ''Herbert'', year = Num 1965,
                      genre = Str ''SciFi''\<rparr>)], available = True\<rparr>) \<and>
   delete_books (with_cast hex24 Book) ''nope''
     \<lparr>docs = [(''65a1b2c3d4e5f60718293a4b'',
                \<lparr>title = Str ''Dune'', author = Str ''Herbert'', year = Num 1965,
                   genre = Str ''SciFi''\<rparr>)], available = True\<rparr>
     = (Responded 500 server_error,
        \<lparr>docs = [(''65a1b2c3d4e5f60718293a4b'',
                   \<lparr>title = Str ''Dune'', author = Str ''Herbert'', year = Num 1965,
                      genre = Str ''SciFi''\<rparr>)], available = True\<rparr>) \<and>
   put_books (with_cast hex24 Book) ''nope''
     (Obj [(''title'', Str ''Emma''), (''author'', Str ''Austen''), (''year'', Num 1815),
           (''genre'', Str ''Novel'')])
     \<lparr>docs = [(''65a1b2c3d4e5f60718293a4b'',
                \<lparr>title = Str ''Dune'', author = Str ''Herbert'', year = Num 1965,
                   genre = Str ''SciFi''\<rparr>)], available = True\<rparr>
     = (Responded 500 server_error,
        \<lparr>docs = [(''65a1b2c3d4e5f60718293a4b'',
                   \<lparr>title = Str ''Dune'', author = Str ''Herbert'', year = Num 1965,
                      genre = Str ''SciFi''\<rparr>)], available = True\<rparr>) \<and>
   put_books (with_cast hex24 Book) ''nope'' (Obj [(''title'', Str ''Emma'')])
     \<lparr>docs = [(''65a1b2c3d4e5f60718293a4b'',
                \<lparr>title = Str ''Dune'', author = Str ''Herbert'', year = Num 1965,
                   genre = Str ''SciFi''\<rparr>)], available = True\<rparr>
     = (Responded 400 all_fields_required,
        \<lparr>docs = [(''65a1b2c3d4e5f60718293a4b'',
                   \<lparr>title = Str ''Dune'', author = Str ''Herbert'', year = Num 1965,
                      genre = Str ''SciFi''\<rparr>)], available = True\<rparr>)"
proof -
  let ?s = "\<lparr>docs = [(''65a1b2c3d4e5f60718293a4b'',
                \<lparr>title = Str ''Dune'', author = Str ''Herbert'', year = Num 1965,
                   genre = Str ''SciFi''\<rparr>)], available = True\<rparr>"
  let ?emma = "\<lparr>title = Str ''Emma'', author = Str ''Austen'', year = Num 1815,
                 genre = Str ''Novel''\<rparr>"
  let ?full = "Obj [(''title'', Str ''Emma''), (''author'', Str ''Austen''), (''year'', Num 1815),
                    (''genre'', Str ''Novel'')]"
  let ?bad = "\<lparr>title = Str ''Emma'', author = Undefined, year = Undefined, genre = Undefined\<rparr>"
  let ?part = "Obj [(''title'', Str ''Emma'')]"
  have a: "available ?s"
    by simp
  have n1: "''65a1b2c3d4e5f60718293a4c'' \<notin> fst ` set (docs ?s)"
    by simp
  have n2: "''nope'' \<notin> fst ` set (docs ?s)"
    by simp
  have v: "hex24 ''65a1b2c3d4e5f60718293a4c''" "\<not> hex24 ''nope''"
    by (simp_all add: hex24_def)
  have d1: "destructure ?full = Inr ?emma \<and> \<not> some_field_falsy ?emma"
    by (simp add: destructure_def own_prop_def some_field_falsy_def)
  have d2: "destructure ?part = Inr ?bad \<and> some_field_falsy ?bad"
    by (simp add: destructure_def own_prop_def some_field_falsy_def)
  from v(1) d1 unknown_id_not_found [OF a n1, of hex24 ?full ?emma "with_cast hex24 Book" ?s]
  have 1: "delete_books (with_cast hex24 Book) ''65a1b2c3d4e5f60718293a4c'' ?s
             = (Responded 404 book_not_found, ?s) \<and>
           put_books (with_cast hex24 Book) ''65a1b2c3d4e5f60718293a4c'' ?full ?s
             = (Responded 404 book_not_found, ?s)"
    by simp
  from v(2) d1 unknown_id_not_found [OF a n2, of hex24 ?full ?emma "with_cast hex24 Book" ?s]
  have 2: "delete_books (with_cast hex24 Book) ''nope'' ?s = (Responded 500 server_error, ?s) \<and>
           put_books (with_cast hex24 Book) ''nope'' ?full ?s = (Responded 500 server_error, ?s)"
    by simp
  from d2 unknown_id_not_found [OF a n2, of hex24 ?part ?bad "with_cast hex24 Book" ?s]
  have 3: "put_books (with_cast hex24 Book) ''nope'' ?part ?s
             = (Responded 400 all_fields_required, ?s)"
    by simp
  from 1 2 3 show ?thesis
    by simp
qed

text \<open>
  Claim C3 as stated fails: a PUT for an unknown identifier whose body lacks fields is
  answered 400, not 404.
\<close>

theorem unknown_id_counterexample:
  "put_books Book ''nope'' (Obj [(''title'', Str ''Dune'')]) \<lparr>docs = [], available = True\<rparr>
     = (Responded 400 (Json (Obj [(''message'', Str ''All fields are required'')])),
        \<lparr>docs = [], available = True\<rparr>)"
  by (simp add: put_books_def destructure_def own_prop_def some_field_falsy_def
        all_fields_required_def message_def)

text \<open>The round trip on the stored records.\<close>

lemma round_trip_docs:
  "(post_books Book req_body s = (Responded 201 r, s') \<longrightarrow>
      (\<exists>i b. destructure req_body = Inr b \<and> r = Json (book_json (i, b)) \<and>
             (i, b) \<in> set (docs s') \<and>
             get_books Book s' = (Responded 200 (Json (Arr (map book_json (docs s')))), s'))) \<and>
   (wf_store s \<and> put_books Book i req_body s = (Responded 200 r, s') \<longrightarrow>
      (\<exists>b. destructure req_body = Inr b \<and> (i, b) \<in> set (docs s') \<and>
           (\<forall>c. (i, c) \<in> set (docs s') \<longrightarrow> c = b) \<and>
           get_books Book s' = (Responded 200 (Json (Arr (map book_json (docs s')))), s'))) \<and>
   (wf_store s \<and> delete_books Book i s = (Responded 200 r, s') \<longrightarrow>
      i \<notin> fst ` set (docs s') \<and>
      get_books Book s' = (Responded 200 (Json (Arr (map book_json (docs s')))), s'))"
proof (intro conjI impI)
  assume "post_books Book req_body s = (Responded 201 r, s')"
  from post_books_Book_201 [OF this] obtain j c where
      "destructure req_body = Inr c" "r = Json (book_json (j, c))" "available s'"
      "docs s' = docs s @ [(j, c)]"
    by blast
  then have "destructure req_body = Inr c \<and> r = Json (book_json (j, c)) \<and>
             (j, c) \<in> set (docs s') \<and>
             get_books Book s' = (Responded 200 (Json (Arr (map book_json (docs s')))), s')"
    by (simp add: get_books_Book)
  then show
    "\<exists>i b. destructure req_body = Inr b \<and> r = Json (book_json (i, b)) \<and>
             (i, b) \<in> set (docs s') \<and>
             get_books Book s' = (Responded 200 (Json (Arr (map book_json (docs s')))), s')"
    by blast
next
  assume a: "wf_store s \<and> put_books Book i req_body s = (Responded 200 r, s')"
  then obtain b old where b: "destructure req_body = Inr b" "available s'"
      "map_of (docs s) i = Some old" "docs s' = replace_doc i b (docs s)"
    using put_books_Book_200 by blast
  from a have d: "distinct (map fst (docs s))" by (simp add: wf_store_def)
  have m: "(i, b) \<in> set (docs s')"
    using b(3,4) by (simp add: replace_doc_in)
  have u: "\<forall>c. (i, c) \<in> set (docs s') \<longrightarrow> c = b"
  proof (intro allI impI)
    fix c
    assume "(i, c) \<in> set (docs s')"
    then have "(i, c) \<in> set (replace_doc i b (docs s))"
      using b(4) by simp
    from replace_doc_only [OF d this] show "c = b" .
  qed
  have g: "get_books Book s' = (Responded 200 (Json (Arr (map book_json (docs s')))), s')"
    using b(2) by (simp add: get_books_Book)
  from b(1) m u g show
    "\<exists>b. destructure req_body = Inr b \<and> (i, b) \<in> set (docs s') \<and>
           (\<forall>c. (i, c) \<in> set (docs s') \<longrightarrow> c = b) \<and>
           get_books Book s' = (Responded 200 (Json (Arr (map book_json (docs s')))), s')"
    by blast
next
  assume a: "wf_store s \<and> delete_books Book i s = (Responded 200 r, s')"
  then have b: "available s'" "docs s' = remove_doc i (docs s)"
    using delete_books_Book_200 by blast+
  from a have "distinct (map fst (docs s))" by (simp add: wf_store_def)
  then show "i \<notin> fst ` set (docs s')"
    using b(2) remove_doc_gone by simp
  show "get_books Book s' = (Responded 200 (Json (Arr (map book_json (docs s')))), s')"
    using b(1) by (simp add: get_books_Book)
qed

lemma book_json_id: "get_prop (book_json d) ''_id'' = Inr (Str (fst d))"
  by (simp add: book_json_def own_prop_def)

lemma book_json_inject: "book_json (i, b) = book_json (j, c) \<Longrightarrow> i = j \<and> b = c"
  by (simp add: book_json_def)

text \<open>
  Claim C4. Round trip over the store. After a POST answered 201, GET /books lists the
  record of the answer: the four submitted fields under the assigned identifier. After
  a PUT answered 200, GET /books lists the four new fields at that identifier, and
  nothing else at it. After a DELETE answered 200, GET /books lists no record with that
  identifier.
\<close>

theorem round_trip:
  "(post_books Book req_body s = (Responded 201 r, s') \<longrightarrow>
      (\<exists>i b l. destructure req_body = Inr b \<and> r = Json (book_json (i, b)) \<and>
         get_books Book s' = (Responded 200 (Json (Arr l)), s') \<and>
         book_json (i, b) \<in> set l)) \<and>
   (wf_store s \<and> put_books Book i req_body s = (Responded 200 r, s') \<longrightarrow>
      (\<exists>b l. destructure req_body = Inr b \<and>
         get_books Book s' = (Responded 200 (Json (Arr l)), s') \<and>
         book_json (i, b) \<in> set l \<and>
         (\<forall>j \<in> set l. get_prop j ''_id'' = Inr (Str i) \<longrightarrow> j = book_json (i, b)))) \<and>
   (wf_store s \<and> delete_books Book i s = (Responded 200 r, s') \<longrightarrow>
      (\<exists>l. get_books Book s' = (Responded 200 (Json (Arr l)), s') \<and>
         (\<forall>j \<in> set l. get_prop j ''_id'' \<noteq> Inr (Str i))))"
proof (intro conjI impI)
  assume "post_books Book req_body s = (Responded 201 r, s')"
  with round_trip_docs [of req_body s r s' i] obtain j b where
      "destructure req_body = Inr b" "r = Json (book_json (j, b))" "(j, b) \<in> set (docs s')"
      "get_books Book s' = (Responded 200 (Json (Arr (map book_json (docs s')))), s')"
    by blast
  then have "destructure req_body = Inr b \<and> r = Json (book_json (j, b)) \<and>
         get_books Book s' = (Responded 200 (Json (Arr (map book_json (docs s')))), s') \<and>
         book_json (j, b) \<in> set (map book_json (docs s'))"
    by simp
  then show "\<exists>i b l. destructure req_body = Inr b \<and> r = Json (book_json (i, b)) \<and>
         get_books Book s' = (Responded 200 (Json (Arr l)), s') \<and>
         book_json (i, b) \<in> set l"
    by blast
next
  assume "wf_store s \<and> put_books Book i req_body s = (Responded 200 r, s')"
  with round_trip_docs [of req_body s r s' i] obtain b where b:
      "destructure req_body = Inr b" "(i, b) \<in> set (docs s')"
      "\<forall>c. (i, c) \<in> set (docs s') \<longrightarrow> c = b"
      "get_books Book s' = (Responded 200 (Json (Arr (map book_json (docs s')))), s')"
    by blast
  have "\<forall>j \<in> set (map book_json (docs s')). get_prop j ''_id'' = Inr (Str i) \<longrightarrow>
          j = book_json (i, b)"
  proof (intro ballI impI)
    fix j
    assume "j \<in> set (map book_json (docs s'))" and k: "get_prop j ''_id'' = Inr (Str i)"
    then obtain d where d: "d \<in> set (docs s')" "j = book_json d"
      by auto
    with k have "fst d = i"
      by (simp add: book_json_id)
    with d(1) b(3) have "snd d = b"
      by (cases d) auto
    with \<open>fst d = i\<close> d(2) show "j = book_json (i, b)"
      by (cases d) simp
  qed
  moreover from b(2) have "book_json (i, b) \<in> set (map book_json (docs s'))"
    by force
  ultimately show "\<exists>b l. destructure req_body = Inr b \<and>
         get_books Book s' = (Responded 200 (Json (Arr l)), s') \<and>
         book_json (i, b) \<in> set l \<and>
         (\<forall>j \<in> set l. get_prop j ''_id'' = Inr (Str i) \<longrightarrow> j = book_json (i, b))"
    using b(1,4) by blast
next
  assume "wf_store s \<and> delete_books Book i s = (Responded 200 r, s')"
  with round_trip_docs [of req_body s r s' i] have g: "i \<notin> fst ` set (docs s')"
      "get_books Book s' = (Responded 200 (Json (Arr (map book_json (docs s')))), s')"
    by blast+
  have "\<forall>j \<in> set (map book_json (docs s')). get_prop j ''_id'' \<noteq> Inr (Str i)"
  proof (intro ballI notI)
    fix j
    assume "j \<in> set (map book_json (docs s'))" and k: "get_prop j ''_id'' = Inr (Str i)"
    then obtain d where d: "d \<in> set (docs s')" "j = book_json d"
      by auto
    with k have "fst d = i"
      by (simp add: book_json_id)
    with d(1) g(1) show False
      by force
  qed
  with g(2) show "\<exists>l. get_books Book s' = (Responded 200 (Json (Arr l)), s') \<and>
         (\<forall>j \<in> set l. get_prop j ''_id'' \<noteq> Inr (Str i))"
    by blast
qed

text \<open>
  The spec's example scenario: create, list, replace, list, delete, list.
\<close>

theorem round_trip_witness:
  "post_books Book
     (Obj [(''title'', Str ''Dune''), (''author'', Str ''Herbert''), (''year'', Num 1965),
           (''genre'', Str ''SciFi'')])
     \<lparr>docs = [], available = True\<rparr>
   = (Responded 201
        (Json (Obj [(''_id'', Str ''0''), (''title'', Str ''Dune''), (''author'', Str ''Herbert''),
                    (''year'', Num 1965), (''genre'', Str ''SciFi'')])),
      \<lparr>docs = [(''0'', \<lparr>title = Str ''Dune'', author = Str ''Herbert'', year = Num 1965,
                          genre = Str ''SciFi''\<rparr>)],
         available = True\<rparr>) \<and>
   get_books Book
     \<lparr>docs = [(''0'', \<lparr>title = Str ''Dune'', author = Str ''Herbert'', year = Num 1965,
                       genre = Str ''SciFi''\<rparr>)],
        available = True\<rparr>
   = (Responded 200
        (Json (Arr [Obj [(''_id'', Str ''0''), (''title'', Str ''Dune''), (''author'', Str ''Herbert''),
                         (''year'', Num 1965), (''genre'', Str ''SciFi'')]])),
      \<lparr>docs = [(''0'', \<lparr>title = Str ''Dune'', author = Str ''Herbert'', year = Num 1965,
                          genre = Str ''SciFi''\<rparr>)],
         available = True\<rparr>) \<and>
   wf_store \<lparr>docs = [(''0'', \<lparr>title = Str ''Dune'', author = Str ''Herbert'', year = Num 1965,
                              genre = Str ''SciFi''\<rparr>)],
             available = True\<rparr> \<and>
   put_books Book ''0''
     (Obj [(''title'', Str ''Dune Messiah''), (''author'', Str ''Herbert''), (''year'', Num 1969),
           (''genre'', Str ''SciFi'')])
     \<lparr>docs = [(''0'', \<lparr>title = Str ''Dune'', author = Str ''Herbert'', year = Num 1965,
                       genre = Str ''SciFi''\<rparr>)],
        available = True\<rparr>
   = (Responded 200
        (Json (Obj [(''_id'', Str ''0''), (''title'', Str ''Dune Messiah''),
                    (''author'', Str ''Herbert''), (''year'', Num 1969), (''genre'', Str ''SciFi'')])),
      \<lparr>docs = [(''0'', \<lparr>title = Str ''Dune Messiah'', author = Str ''Herbert'', year = Num 1969,
                          genre = Str ''SciFi''\<rparr>)],
         available = True\<rparr>) \<and>
   get_books Book
     \<lparr>docs = [(''0'', \<lparr>title = Str ''Dune Messiah'', author = Str ''Herbert'', year = Num 1969,
                       genre = Str ''SciFi''\<rparr>)],
        available = True\<rparr>
   = (Responded 200
        (Json (Arr [Obj [(''_id'', Str ''0''), (''title'', Str ''Dune Messiah''),
                         (''author'', Str ''Herbert''), (''year'', Num 1969),
                         (''genre'', Str ''SciFi'')]])),
      \<lparr>docs = [(''0'', \<lparr>title = Str ''Dune Messiah'', author = Str ''Herbert'', year = Num 1969,
                          genre = Str ''SciFi''\<rparr>)],
         available = True\<rparr>) \<and>
   delete_books Book ''0''
     \<lparr>docs = [(''0'', \<lparr>title = Str ''Dune Messiah'', author = Str ''Herbert'', year = Num 1969,
                       genre = Str ''SciFi''\<rparr>)],
        available = True\<rparr>
   = (Responded 200 book_deleted, \<lparr>docs = [], available = True\<rparr>) \<and>
   get_books Book \<lparr>docs = [], available = True\<rparr>
   = (Responded 200 (Json (Arr [])), \<lparr>docs = [], available = True\<rparr>)"
proof -
  let ?dune = "\<lparr>title = Str ''Dune'', author = Str ''Herbert'', year = Num 1965,
                 genre = Str ''SciFi''\<rparr>"
  let ?messiah = "\<lparr>title = Str ''Dune Messiah'', author = Str ''Herbert'', year = Num 1969,
                    genre = Str ''SciFi''\<rparr>"
  let ?s0 = "\<lparr>docs = [], available = True\<rparr>"
  let ?s1 = "\<lparr>docs = [(''0'', ?dune)], available = True\<rparr>"
  let ?s2 = "\<lparr>docs = [(''0'', ?messiah)], available = True\<rparr>"
  let ?b1 = "Obj [(''title'', Str ''Dune''), (''author'', Str ''Herbert''), (''year'', Num 1965),
                  (''genre'', Str ''SciFi'')]"
  let ?b2 = "Obj [(''title'', Str ''Dune Messiah''), (''author'', Str ''Herbert''),
                  (''year'', Num 1969), (''genre'', Str ''SciFi'')]"
  have c: "post_books Book ?b1 ?s0 = (Responded 201 (Json (book_json (''0'', ?dune))), ?s1)"
    by (simp add: post_books_def destructure_def own_prop_def some_field_falsy_def Book_def
          store_save_def invalid_book_def fresh_id_def Let_def)
  have w: "wf_store ?s1" "wf_store ?s2"
    by (simp_all add: wf_store_def)
  have u: "put_books Book ''0'' ?b2 ?s1 = (Responded 200 (Json (book_json (''0'', ?messiah))), ?s2)"
    by (simp add: put_books_def destructure_def own_prop_def some_field_falsy_def Book_def
          store_update_def invalid_book_def)
  have d: "delete_books Book ''0'' ?s2 = (Responded 200 book_deleted, ?s0)"
    by (simp add: delete_books_def Book_def store_delete_def)
  have l: "get_books Book ?s1 = (Responded 200 (Json (Arr [book_json (''0'', ?dune)])), ?s1)"
      "get_books Book ?s2 = (Responded 200 (Json (Arr [book_json (''0'', ?messiah)])), ?s2)"
      "get_books Book ?s0 = (Responded 200 (Json (Arr [])), ?s0)"
    by (simp_all add: get_books_def Book_def store_find_def)
  from c w u d l
    round_trip [of ?b1 ?s0 "Json (book_json (''0'', ?dune))" ?s1 "''0''"]
    round_trip [of ?b2 ?s1 "Json (book_json (''0'', ?messiah))" ?s2 "''0''"]
    round_trip [of ?b2 ?s2 book_deleted ?s0 "''0''"]
  show ?thesis
    by (simp add: book_json_def)
qed

section \<open>The upstream URL\<close>

lemma split_on_not_Nil: "split_on c xs \<noteq> []"
  by (induction xs) (auto split: list.splits)

lemma split_on_no_sep: "c \<notin> set a \<Longrightarrow> split_on c a = [a]"
  by (induction a) auto

lemma split_on_append: "c \<notin> set a \<Longrightarrow> split_on c (a @ c # r) = a # split_on c r"
  by (induction a) auto

lemma parse_params_segment:
  assumes "CHR ''&'' \<notin> set p" and "p \<noteq> []"
  shows "parse_params (p @ CHR ''&'' # r) = split_pair p # parse_params r"
  using assms by (simp add: parse_params_def split_on_append)

lemma parse_params_last:
  assumes "CHR ''&'' \<notin> set p" and "p \<noteq> []"
  shows "parse_params p = [split_pair p]"
  using assms by (simp add: parse_params_def split_on_no_sep)

lemma split_pair_eq: "CHR ''='' \<notin> set n \<Longrightarrow> split_pair (n @ CHR ''='' # v) = (n, v)"
  by (induction n) (auto simp: split_pair_def)

lemma takeWhile_all: "c \<notin> set xs \<Longrightarrow> takeWhile (\<lambda>x. x \<noteq> c) xs = xs"
  by (induction xs) auto

lemma parse_filter:
  assumes "plain_param p" and "CHR ''&'' \<notin> set n" and "CHR ''='' \<notin> set n"
  shows "parse_params ((if truthy (param p) then n @ ''='' @ to_text p @ ''&'' else []) @ r)
           = supplied n p @ parse_params r"
proof (cases p)
  case None
  then show ?thesis by (simp add: param_def supplied_def)
next
  case (Some v)
  show ?thesis
  proof (cases "v = []")
    case True
    with Some show ?thesis by (simp add: param_def supplied_def)
  next
    case False
    from assms(1) Some have "CHR ''&'' \<notin> set v"
      by (simp add: plain_param_def plain_def)
    with assms(2) have "CHR ''&'' \<notin> set (n @ CHR ''='' # v)" by simp
    then have "parse_params ((n @ CHR ''='' # v) @ CHR ''&'' # r)
                 = split_pair (n @ CHR ''='' # v) # parse_params r"
      by (rule parse_params_segment) simp
    with assms(3) Some False show ?thesis
      by (simp add: param_def supplied_def to_text_def split_pair_eq)
  qed
qed

lemma filter_no_hash:
  assumes "plain_param p" and "CHR ''#'' \<notin> set n"
  shows "CHR ''#'' \<notin> set (if truthy (param p) then n @ ''='' @ to_text p @ ''&'' else [])"
  using assms by (cases p) (auto simp: plain_param_def plain_def param_def to_text_def)

text \<open>
  Claim C5, as amended. When no filter value and not the credential contains \<open>&\<close> or
  \<open>#\<close>, the parameters of the upstream URL are exactly the filters supplied with a
  non-empty value, in the order q, category, country, followed by the credential: each
  filter is there or not by its own value alone.
\<close>

theorem forwarded_filters:
  assumes "plain_param (query q)" and "plain_param (category q)" and "plain_param (country q)"
    and "plain (to_text key)"
  shows "url_params (apiUrl key q) =
           supplied ''q'' (query q) @ supplied ''category'' (category q) @
           supplied ''country'' (country q) @ [(''apiKey'', to_text key)]"
proof -
  let ?f1 = "if truthy (param (query q)) then ''q'' @ ''='' @ to_text (query q) @ ''&'' else []"
  let ?f2 = "if truthy (param (category q)) then ''category'' @ ''='' @ to_text (category q) @ ''&'' else []"
  let ?f3 = "if truthy (param (country q)) then ''country'' @ ''='' @ to_text (country q) @ ''&'' else []"
  let ?k = "''apiKey'' @ CHR ''='' # to_text key"
  have h: "CHR ''#'' \<notin> set (?f1 @ ?f2 @ ?f3 @ ?k)"
    using filter_no_hash [OF assms(1), of "''q''"] filter_no_hash [OF assms(2), of "''category''"]
      filter_no_hash [OF assms(3), of "''country''"] assms(4)
    by (simp add: plain_def)
  have "query_string (apiUrl key q) = takeWhile (\<lambda>c. c \<noteq> CHR ''#'') (?f1 @ ?f2 @ ?f3 @ ?k)"
    by (simp add: query_string_def apiUrl_def)
  also have "\<dots> = ?f1 @ ?f2 @ ?f3 @ ?k"
    using h by (rule takeWhile_all)
  finally have qs: "query_string (apiUrl key q) = ?f1 @ ?f2 @ ?f3 @ ?k" .
  have k: "parse_params ?k = [(''apiKey'', to_text key)]"
  proof -
    from assms(4) have "CHR ''&'' \<notin> set ?k" by (simp add: plain_def)
    then have "parse_params ?k = [split_pair ?k]"
      by (rule parse_params_last) simp
    also have "split_pair ?k = (''apiKey'', to_text key)"
      by (rule split_pair_eq) simp
    finally show ?thesis .
  qed
  have "parse_params (?f1 @ ?f2 @ ?f3 @ ?k) = supplied ''q'' (query q) @ parse_params (?f2 @ ?f3 @ ?k)"
    by (rule parse_filter [OF assms(1)]) simp_all
  also have "parse_params (?f2 @ ?f3 @ ?k) = supplied ''category'' (category q) @ parse_params (?f3 @ ?k)"
    by (rule parse_filter [OF assms(2)]) simp_all
  also have "parse_params (?f3 @ ?k) = supplied ''country'' (country q) @ parse_params ?k"
    by (rule parse_filter [OF assms(3)]) simp_all
  finally show ?thesis
    by (simp only: url_params_def qs k)
qed

theorem forwarded_filters_witness:
  "plain_param (Some ''bitcoin'') \<and> plain_param None \<and> plain_param (Some ''us'') \<and>
   plain (to_text (Some ''K'')) \<and>
   url_params (apiUrl (Some ''K'') \<lparr>query = Some ''bitcoin'', category = None, country = Some ''us''\<rparr>)
     = [(''q'', ''bitcoin''), (''country'', ''us''), (''apiKey'', ''K'')]"
proof -
  have p: "plain_param (query \<lparr>query = Some ''bitcoin'', category = None, country = Some ''us''\<rparr>)"
      "plain_param (category \<lparr>query = Some ''bitcoin'', category = None, country = Some ''us''\<rparr>)"
      "plain_param (country \<lparr>query = Some ''bitcoin'', category = None, country = Some ''us''\<rparr>)"
      "plain (to_text (Some ''K''))"
    by (simp_all add: plain_param_def plain_def to_text_def)
  from p forwarded_filters [OF p] show ?thesis
    by (simp add: supplied_def to_text_def)
qed

text \<open>
  Claim C5 as stated fails: the value is pasted into the URL as it is, so a query that
  contains \<open>&\<close> sends upstream a country filter the caller did not supply.
\<close>

theorem forwarded_filters_counterexample:
  "apiUrl (Some ''K'') \<lparr>query = Some ''a&country=us'', category = None, country = None\<rparr>
     = ''https://newsapi.org/v2/top-headlines?q=a&country=us&apiKey=K'' \<and>
   url_params (apiUrl (Some ''K'') \<lparr>query = Some ''a&country=us'', category = None, country = None\<rparr>)
     = [(''q'', ''a''), (''country'', ''us''), (''apiKey'', ''K'')]"
  by (simp add: apiUrl_def param_def to_text_def url_params_def query_string_def parse_params_def
        split_pair_def)

section \<open>The news handler\<close>

lemma map_err_length: "map_err f xs = Inr ys \<Longrightarrow> length ys = length xs"
  by (induction xs arbitrary: ys) (auto split: sum.splits)

lemma map_err_fails: "a \<in> set xs \<Longrightarrow> f a = Inl e \<Longrightarrow> \<exists>e'. map_err f xs = Inl e'"
  by (induction xs) (auto split: sum.splits)

lemma map_err_all: "map_err f xs = Inr ys \<Longrightarrow> y \<in> set ys \<Longrightarrow> \<exists>x \<in> set xs. f x = Inr y"
  by (induction xs arbitrary: ys) (auto split: sum.splits)

lemma reshape_five:
  "reshape a = Inr y \<Longrightarrow>
   \<exists>t d n u p. y = Obj [(''title'', t), (''description'', d), (''source'', n), (''url'', u),
                        (''publishedAt'', p)]"
  by (auto simp: reshape_def split: sum.splits)

lemma reshape_no_source:
  assumes "get_prop a ''source'' = Inr Undefined \<or> get_prop a ''source'' = Inr Null"
  shows "reshape a = Inl TypeError"
proof -
  from assms have "a \<noteq> Undefined" and "a \<noteq> Null" by auto
  then have "\<exists>t. get_prop a ''title'' = Inr t" and "\<exists>d. get_prop a ''description'' = Inr d"
    by (cases a; simp)+
  with assms show ?thesis
    by (auto simp: reshape_def)
qed

text \<open>
  The value that is stringified on success: the upstream \<open>totalResults\<close> and one
  reshaped article of exactly five fields per upstream article.
\<close>

lemma news_payload_shape:
  assumes "news_payload data = Inr v"
  shows "\<exists>xs ys n. get_prop data ''articles'' = Inr (Arr xs) \<and>
           get_prop data ''totalResults'' = Inr n \<and>
           v = Obj [(''totalResults'', n), (''articles'', Arr ys)] \<and>
           length ys = length xs \<and>
           (\<forall>y \<in> set ys. \<exists>t d s u p. y = Obj [(''title'', t), (''description'', d), (''source'', s),
                                              (''url'', u), (''publishedAt'', p)])"
proof -
  from assms obtain arts ys n where a: "get_prop data ''articles'' = Inr arts"
      "js_map reshape arts = Inr ys" "get_prop data ''totalResults'' = Inr n"
      "v = Obj [(''totalResults'', n), (''articles'', Arr ys)]"
    by (auto simp: news_payload_def split: sum.splits)
  from a(2) obtain xs where x: "arts = Arr xs" "map_err reshape xs = Inr ys"
    by (auto simp: js_map_def split: jsval.splits)
  have "\<forall>y \<in> set ys. \<exists>t d s u p. y = Obj [(''title'', t), (''description'', d), (''source'', s),
                                              (''url'', u), (''publishedAt'', p)]"
    using map_err_all [OF x(2)] reshape_five by blast
  with a x map_err_length [OF x(2)] show ?thesis by blast
qed

lemma get_news_cases:
  "(\<exists>v. get_news fetch key q = Responded 200 (JsonText v)) \<or>
   get_news fetch key q = Responded 500 news_error"
  by (auto simp: get_news_def split: fetch_result.splits option.splits sum.splits)

lemma get_news_bad_payload:
  assumes "fetch (apiUrl key q) = Response True (Some data)" and "\<exists>e. news_payload data = Inl e"
  shows "get_news fetch key q = Responded 500 news_error"
  using assms by (auto simp: get_news_def)

lemma no_articles_array:
  assumes "\<forall>xs. get_prop data ''articles'' \<noteq> Inr (Arr xs)"
  shows "\<exists>e. news_payload data = Inl e"
proof (cases "get_prop data ''articles''")
  case (Inl e)
  then show ?thesis by (simp add: news_payload_def)
next
  case (Inr arts)
  with assms have "\<forall>xs. arts \<noteq> Arr xs" by simp
  then have "js_map reshape arts = Inl TypeError"
    by (cases arts) (simp_all add: js_map_def)
  with Inr show ?thesis by (simp add: news_payload_def)
qed

lemma article_without_source:
  assumes "get_prop data ''articles'' = Inr (Arr xs)" and "a \<in> set xs"
    and "get_prop a ''source'' = Inr Undefined \<or> get_prop a ''source'' = Inr Null"
  shows "\<exists>e. news_payload data = Inl e"
proof -
  from assms(3) have "reshape a = Inl TypeError" by (rule reshape_no_source)
  from map_err_fails [of a xs reshape TypeError, OF assms(2) this] obtain e where "map_err reshape xs = Inl e" ..
  with assms(1) show ?thesis by (simp add: news_payload_def js_map_def)
qed

lemma get_news_success:
  assumes "fetch (apiUrl key q) = Response True (Some data)" and "news_payload data = Inr v"
  shows "get_news fetch key q = Responded 200 (JsonText v)"
  using assms by (simp add: get_news_def)

lemma reshape_object:
  "own_prop ps ''source'' = Obj src \<Longrightarrow> \<exists>y. reshape (Obj ps) = Inr y"
  by (simp add: reshape_def)

lemma map_err_succeeds: "(\<forall>x \<in> set xs. \<exists>y. f x = Inr y) \<Longrightarrow> \<exists>ys. map_err f xs = Inr ys"
  by (induction xs) auto

text \<open>
  A payload as the provider documents it, an object whose \<open>articles\<close> is an array of
  objects that each carry a \<open>source\<close> object, is reshaped without an exception.
\<close>

lemma news_payload_well_formed:
  assumes "own_prop ds ''articles'' = Arr xs"
    and "\<forall>a \<in> set xs. \<exists>ps src. a = Obj ps \<and> own_prop ps ''source'' = Obj src"
  shows "\<exists>v. news_payload (Obj ds) = Inr v"
proof -
  have "\<forall>a \<in> set xs. \<exists>y. reshape a = Inr y"
  proof
    fix a
    assume "a \<in> set xs"
    with assms(2) obtain ps src where "a = Obj ps" and "own_prop ps ''source'' = Obj src"
      by blast
    then show "\<exists>y. reshape a = Inr y"
      by (simp add: reshape_object)
  qed
  then obtain ys where "map_err reshape xs = Inr ys"
    using map_err_succeeds [of xs reshape] by blast
  with assms(1) show ?thesis
    by (simp add: news_payload_def js_map_def)
qed

text \<open>
  Claim C2, at the input where the code departs from it. On a successful upstream
  response the handler answers 200, but what it hands to \<^verbatim>\<open>res.json\<close> is the string
  \<^verbatim>\<open>JSON.stringify(..., null, 2)\<close>: the response body is a JSON string literal, not the
  object with \<open>totalResults\<close> and \<open>articles\<close>.
\<close>

theorem news_success_body_is_text:
  "get_news
     (\<lambda>u. Response True (Some (Obj
        [(''status'', Str ''ok''), (''totalResults'', Num 1),
         (''articles'', Arr [Obj
            [(''source'', Obj [(''id'', Null), (''name'', Str ''BBC News'')]),
             (''author'', Str ''A. Writer''), (''title'', Str ''Headline''),
             (''description'', Str ''Summary''), (''url'', Str ''https://example.org/a''),
             (''urlToImage'', Null), (''publishedAt'', Str ''2024-01-01T00:00:00Z''),
             (''content'', Str ''Text'')]])])))
     (Some ''K'') \<lparr>query = None, category = None, country = None\<rparr>
   = Responded 200 (JsonText (Obj
        [(''totalResults'', Num 1),
         (''articles'', Arr [Obj
            [(''title'', Str ''Headline''), (''description'', Str ''Summary''),
             (''source'', Str ''BBC News''), (''url'', Str ''https://example.org/a''),
             (''publishedAt'', Str ''2024-01-01T00:00:00Z'')]])]))"
  by (simp add: get_news_def news_payload_def js_map_def reshape_def own_prop_def)

text \<open>
  Claim C6. When the fetch is rejected, or the upstream response is not ok, the answer
  is 500 with one fixed body, the same for every upstream payload.
\<close>

theorem upstream_failure_generic_500:
  assumes "fetch (apiUrl key q) = Rejected \<or> (\<exists>payload. fetch (apiUrl key q) = Response False payload)"
  shows "get_news fetch key q =
           Responded 500 (Json (Obj [(''error'', Str ''Error fetching news. Try again later.'')]))"
  using assms by (auto simp: get_news_def news_error_def split: option.splits)

theorem upstream_failure_generic_500_witness:
  "get_news (\<lambda>u. Rejected) (Some ''K'') \<lparr>query = Some ''bitcoin'', category = None, country = None\<rparr>
     = Responded 500 (Json (Obj [(''error'', Str ''Error fetching news. Try again later.'')])) \<and>
   get_news
     (\<lambda>u. Response False (Some (Obj [(''status'', Str ''error''), (''code'', Str ''rateLimited''),
                                     (''message'', Str ''You have made too many requests'')])))
     (Some ''K'') \<lparr>query = Some ''bitcoin'', category = None, country = None\<rparr>
     = Responded 500 (Json (Obj [(''error'', Str ''Error fetching news. Try again later.'')]))"
  using
    upstream_failure_generic_500 [of "\<lambda>u. Rejected" "Some ''K''"
      "\<lparr>query = Some ''bitcoin'', category = None, country = None\<rparr>"]
    upstream_failure_generic_500 [of
      "\<lambda>u. Response False (Some (Obj [(''status'', Str ''error''), (''code'', Str ''rateLimited''),
                                     (''message'', Str ''You have made too many requests'')]))"
      "Some ''K''" "\<lparr>query = Some ''bitcoin'', category = None, country = None\<rparr>"]
  by simp

text \<open>
  Claim C10. The handler answers 200 or 500 and nothing else, and never throws. An ok
  response whose body is not JSON, whose data has no \<open>articles\<close> array, or one of whose
  articles has no \<open>source\<close> (absent or null) is answered with the generic 500.
\<close>

theorem get_news_total:
  "((\<exists>v. get_news fetch key q = Responded 200 (JsonText v)) \<or>
    get_news fetch key q = Responded 500 news_error) \<and>
   (fetch (apiUrl key q) = Response True None \<longrightarrow>
      get_news fetch key q = Responded 500 news_error) \<and>
   (fetch (apiUrl key q) = Response True (Some data) \<and>
    (\<forall>xs. get_prop data ''articles'' \<noteq> Inr (Arr xs)) \<longrightarrow>
      get_news fetch key q = Responded 500 news_error) \<and>
   (fetch (apiUrl key q) = Response True (Some data) \<and>
    get_prop data ''articles'' = Inr (Arr xs) \<and> a \<in> set xs \<and>
    (get_prop a ''source'' = Inr Undefined \<or> get_prop a ''source'' = Inr Null) \<longrightarrow>
      get_news fetch key q = Responded 500 news_error)"
proof (intro conjI impI)
  show "(\<exists>v. get_news fetch key q = Responded 200 (JsonText v)) \<or>
        get_news fetch key q = Responded 500 news_error"
    by (rule get_news_cases)
next
  assume "fetch (apiUrl key q) = Response True None"
  then show "get_news fetch key q = Responded 500 news_error"
    by (simp add: get_news_def)
next
  assume a: "fetch (apiUrl key q) = Response True (Some data) \<and>
          (\<forall>xs. get_prop data ''articles'' \<noteq> Inr (Arr xs))"
  then have "\<exists>e. news_payload data = Inl e"
    by (simp add: no_articles_array)
  with a show "get_news fetch key q = Responded 500 news_error"
    by (simp add: get_news_bad_payload)
next
  assume a: "fetch (apiUrl key q) = Response True (Some data) \<and>
          get_prop data ''articles'' = Inr (Arr xs) \<and> a \<in> set xs \<and>
          (get_prop a ''source'' = Inr Undefined \<or> get_prop a ''source'' = Inr Null)"
  then have "\<exists>e. news_payload data = Inl e"
    using article_without_source [of data xs a] by simp
  with a show "get_news fetch key q = Responded 500 news_error"
    by (simp add: get_news_bad_payload)
qed

theorem get_news_total_witness:
  "get_news (\<lambda>u. Response True None) (Some ''K'')
     \<lparr>query = None, category = None, country = None\<rparr>
     = Responded 500 news_error \<and>
   get_news (\<lambda>u. Response True (Some (Obj [(''status'', Str ''ok'')]))) (Some ''K'')
     \<lparr>query = None, category = None, country = None\<rparr>
     = Responded 500 news_error \<and>
   get_news
     (\<lambda>u. Response True (Some (Obj [(''totalResults'', Num 1),
                                    (''articles'', Arr [Obj [(''title'', Str ''t'')]])])))
     (Some ''K'') \<lparr>query = None, category = None, country = None\<rparr>
     = Responded 500 news_error \<and>
   get_news
     (\<lambda>u. Response True (Some (Obj [(''totalResults'', Num 1),
              (''articles'', Arr [Obj [(''source'', Obj [(''id'', Null), (''name'', Str ''BBC'')]),
                                       (''title'', Str ''t'')]])])))
     (Some ''K'') \<lparr>query = None, category = None, country = None\<rparr>
     = Responded 200
         (JsonText (Obj [(''totalResults'', Num 1),
            (''articles'', Arr [Obj [(''title'', Str ''t''), (''description'', Undefined),
                                     (''source'', Str ''BBC''), (''url'', Undefined),
                                     (''publishedAt'', Undefined)]])]))"
proof -
  let ?q = "\<lparr>query = None, category = None, country = None\<rparr>"
  let ?a = "Obj [(''title'', Str ''t'')]"
  let ?d2 = "Obj [(''status'', Str ''ok'')]"
  let ?d3 = "Obj [(''totalResults'', Num 1), (''articles'', Arr [?a])]"
  have 1: "(\<lambda>u. Response True None) (apiUrl (Some ''K'') ?q) = Response True None"
    by simp
  have 2: "(\<lambda>u. Response True (Some ?d2)) (apiUrl (Some ''K'') ?q) = Response True (Some ?d2) \<and>
           (\<forall>xs. get_prop ?d2 ''articles'' \<noteq> Inr (Arr xs))"
    by (simp add: own_prop_def)
  have 3: "(\<lambda>u. Response True (Some ?d3)) (apiUrl (Some ''K'') ?q) = Response True (Some ?d3) \<and>
           get_prop ?d3 ''articles'' = Inr (Arr [?a]) \<and> ?a \<in> set [?a] \<and>
           (get_prop ?a ''source'' = Inr Undefined \<or> get_prop ?a ''source'' = Inr Null)"
    by (simp add: own_prop_def)
  have 4: "get_news
     (\<lambda>u. Response True (Some (Obj [(''totalResults'', Num 1),
              (''articles'', Arr [Obj [(''source'', Obj [(''id'', Null), (''name'', Str ''BBC'')]),
                                       (''title'', Str ''t'')]])])))
     (Some ''K'') ?q
     = Responded 200
         (JsonText (Obj [(''totalResults'', Num 1),
            (''articles'', Arr [Obj [(''title'', Str ''t''), (''description'', Undefined),
                                     (''source'', Str ''BBC''), (''url'', Undefined),
                                     (''publishedAt'', Undefined)]])]))"
    by (simp add: get_news_def news_payload_def js_map_def reshape_def own_prop_def)
  have a: "get_news (\<lambda>u. Response True None) (Some ''K'') ?q = Responded 500 news_error"
    using 1 get_news_total [of "\<lambda>u. Response True None" "Some ''K''" ?q] by blast
  have b: "get_news (\<lambda>u. Response True (Some ?d2)) (Some ''K'') ?q = Responded 500 news_error"
    using 2 get_news_total [of "\<lambda>u. Response True (Some ?d2)" "Some ''K''" ?q ?d2] by blast
  have c: "get_news (\<lambda>u. Response True (Some ?d3)) (Some ''K'') ?q = Responded 500 news_error"
    using 3 get_news_total [of "\<lambda>u. Response True (Some ?d3)" "Some ''K''" ?q ?d3 "[?a]" ?a]
    by blast
  from a b c 4 show ?thesis by simp
qed

text \<open>
  Claim C8, as amended. Nothing checks the credential: an unset credential is pasted
  into the URL as the text \<open>undefined\<close>, and the handler behaves exactly as if that text
  had been configured. The request is sent, and whether it fails is decided per request
  by what the upstream answers: 500 when the fetch is rejected or the response is not ok.
\<close>

theorem unset_credential_per_request:
  "apiUrl None q = apiUrl (Some ''undefined'') q \<and>
   get_news fetch None q = get_news fetch (Some ''undefined'') q \<and>
   (fetch (apiUrl None q) = Rejected \<or>
    (\<exists>payload. fetch (apiUrl None q) = Response False payload) \<longrightarrow>
      get_news fetch None q = Responded 500 news_error)"
  by (auto simp: get_news_def apiUrl_def to_text_def split: option.splits)

text \<open>An upstream that refuses exactly the requests whose credential is \<open>undefined\<close>.\<close>

theorem unset_credential_per_request_witness:
  "apiUrl None \<lparr>query = None, category = None, country = Some ''us''\<rparr>
     = ''https://newsapi.org/v2/top-headlines?country=us&apiKey=undefined'' \<and>
   get_news
     (\<lambda>u. if u = ''https://newsapi.org/v2/top-headlines?country=us&apiKey=undefined''
          then Response False (Some (Obj [(''status'', Str ''error''),
                                          (''code'', Str ''apiKeyInvalid'')]))
          else Response True (Some (Obj [(''totalResults'', Num 0), (''articles'', Arr [])])))
     None \<lparr>query = None, category = None, country = Some ''us''\<rparr>
   = Responded 500 news_error"
proof -
  let ?q = "\<lparr>query = None, category = None, country = Some ''us''\<rparr>"
  let ?f = "\<lambda>u. if u = ''https://newsapi.org/v2/top-headlines?country=us&apiKey=undefined''
          then Response False (Some (Obj [(''status'', Str ''error''),
                                          (''code'', Str ''apiKeyInvalid'')]))
          else Response True (Some (Obj [(''totalResults'', Num 0), (''articles'', Arr [])]))"
  have u: "apiUrl None ?q = ''https://newsapi.org/v2/top-headlines?country=us&apiKey=undefined''"
    by (simp add: apiUrl_def param_def to_text_def)
  then have "\<exists>payload. ?f (apiUrl None ?q) = Response False payload"
    by simp
  with unset_credential_per_request [of ?q ?f]
  have "get_news ?f None ?q = Responded 500 news_error"
    by blast
  with u show ?thesis by simp
qed

text \<open>
  Claim C8 as stated fails: with the credential unset the request is sent, to a URL
  ending in \<open>apiKey=undefined\<close>; it is answered 200 if the upstream accepts it and 500,
  at request time, if the upstream refuses it.
\<close>

theorem unset_credential_counterexample:
  "apiUrl None \<lparr>query = None, category = None, country = None\<rparr>
     = ''https://newsapi.org/v2/top-headlines?apiKey=undefined'' \<and>
   get_news
     (\<lambda>u. if u = ''https://newsapi.org/v2/top-headlines?apiKey=undefined''
          then Response True (Some (Obj [(''status'', Str ''ok''), (''totalResults'', Num 0),
                                         (''articles'', Arr [])]))
          else Rejected)
     None \<lparr>query = None, category = None, country = None\<rparr>
   = Responded 200 (JsonText (Obj [(''totalResults'', Num 0), (''articles'', Arr [])])) \<and>
   get_news
     (\<lambda>u. if u = ''https://newsapi.org/v2/top-headlines?apiKey=undefined''
          then Response False (Some (Obj [(''status'', Str ''error''),
                                          (''code'', Str ''apiKeyInvalid'')]))
          else Rejected)
     None \<lparr>query = None, category = None, country = None\<rparr>
   = Responded 500 (Json (Obj [(''error'', Str ''Error fetching news. Try again later.'')]))"
  by (simp add: get_news_def apiUrl_def to_text_def param_def news_payload_def js_map_def
        own_prop_def news_error_def)

end
